theory Spec2Isabelle
  imports Complex_Main "HOL-Library.Char_ord" "HOL-Library.List_Lexorder"
begin

section \<open>extrabol: photometry normalisation, dense light curve, blackbody fits, output table\<close>

text \<open>
  A shallow embedding of \<^verbatim>\<open>src/extrabol/extrabol.py\<close>.

  Conventions of the embedding.
  \<^item> A Python/numpy float is a \<^typ>\<open>real\<close>: rounding, overflow and the infinities are not
    modelled. Where the source can produce \<^verbatim>\<open>nan\<close> on purpose (the \<^verbatim>\<open>except\<close> arm of
    \<^verbatim>\<open>fit_bb\<close>) or through \<^verbatim>\<open>np.sqrt\<close> of a negative number, the value is a
    \<^typ>\<open>real option\<close> and \<open>None\<close> stands for \<^verbatim>\<open>nan\<close>.
  \<^item> A one-dimensional numpy array is a list; fancy indexing \<^verbatim>\<open>a[gis]\<close> is
    \<open>map ((!) a) gis\<close>.
  \<^item> Every \<^verbatim>\<open>raise\<close> and \<^verbatim>\<open>sys.exit\<close> is a value \<open>Inl e\<close> of a sum type.
  \<^item> The external numerical libraries (the SVO filter index, the nonlinear least-squares
    routine \<^verbatim>\<open>curve_fit\<close>, the spline template, the fitted Gaussian process) are parameters
    of the functions that call them.
\<close>

subsection \<open>Errors and numpy helpers\<close>

datatype error =
    IndexError
  | ValueError
  | SystemExit string

text \<open>\<^verbatim>\<open>np.mean\<close> of a non-empty array.\<close>

definition np_mean :: "real list \<Rightarrow> real" where
  "np_mean xs = sum_list xs / real (length xs)"

text \<open>\<^verbatim>\<open>np.min\<close>: raises \<^verbatim>\<open>ValueError\<close> on an empty array.\<close>

definition np_min :: "real list \<Rightarrow> error + real" where
  "np_min xs = (case xs of [] \<Rightarrow> Inl ValueError | x # rest \<Rightarrow> Inr (fold min rest x))"

text \<open>Fancy indexing \<^verbatim>\<open>a[gis]\<close> with an index array built from \<^verbatim>\<open>np.arange(len(a))\<close>.\<close>

definition take_idx :: "'a list \<Rightarrow> nat list \<Rightarrow> 'a list" where
  "take_idx a gis = map ((!) a) gis"

subsection \<open>Photometry Normalizer: \<^verbatim>\<open>read_in_photometry\<close>\<close>

text \<open>One row of the SVO filter index, as far as the source reads it.\<close>

record filter_meta =
  WavelengthEff :: real
  WidthEff :: real
  ZeroPoint :: real

text \<open>
  One data row of the input file: \<^verbatim>\<open>time, magnitude, uncertainty, filterId, magnitudeSystem\<close>.
  The numeric columns are taken as already parsed.
\<close>

record phot_row =
  row_phase :: real
  row_mag :: real
  row_err :: real
  row_filter :: string
  row_system :: string

text \<open>
  The return value \<^verbatim>\<open>lc, wv_corr, flux_corr, my_filters\<close>; \<^verbatim>\<open>lc\<close> is
  \<^verbatim>\<open>np.vstack((phases, fluxes, wv_effs/1000., errs, width_effs))\<close>, kept here as its five rows.
\<close>

record normalized =
  lc_phases :: "real list"
  lc_fluxes :: "real list"
  lc_wv :: "real list"
  lc_errs :: "real list"
  lc_widths :: "real list"
  out_wv_corr :: real
  out_flux_corr :: real
  out_my_filters :: "string list"

text \<open>
  Lines 102-108: every filter identifier is looked up; the first one that is missing ends the
  run through \<^verbatim>\<open>sys.exit\<close>.
\<close>

fun lookup_filters :: "(string \<Rightarrow> filter_meta option) \<Rightarrow> string list \<Rightarrow> error + filter_meta list" where
  "lookup_filters index [] = Inr []"
| "lookup_filters index (ufilt # rest) =
     (case index ufilt of
        None \<Rightarrow> Inl (SystemExit (''Cannot find '' @ ufilt @ '' in SVO.''))
      | Some m \<Rightarrow>
          (case lookup_filters index rest of
             Inl e \<Rightarrow> Inl e
           | Inr ms \<Rightarrow> Inr (m # ms)))"

text \<open>Line 122: the log-flux scale, anchored at the AB zero point of 3631 Jy.\<close>

definition log_flux :: "real \<Rightarrow> real" where
  "log_flux flux = 2.5 * (log 10 flux - log 10 3631.00)"

text \<open>
  The algebraic inverse of line 122. The source never converts back on this scale (its
  \<^verbatim>\<open>fit_bb\<close> goes to cgs units with the constant 48.6), so this definition is written from
  the formula itself.
\<close>

definition inv_log_flux :: "real \<Rightarrow> real" where
  "inv_log_flux lf = 3631.00 * 10 powr (lf / 2.5)"

text \<open>Lines 112-123: the body of the loop over data rows.\<close>

definition row_flux :: "real \<Rightarrow> real \<Rightarrow> phot_row \<Rightarrow> filter_meta \<Rightarrow> real" where
  "row_flux dm redshift datapoint meta =
     (let mag = row_mag datapoint - dm;
          zpt = (if row_system datapoint = ''AB'' then 3631.00 else ZeroPoint meta);
          flux = 10 powr (mag / - 2.5) * zpt * (1 + redshift)
      in log_flux flux)"

text \<open>
  Lines 133-137. \<^verbatim>\<open>errs[i]\<close> is a numpy float, so \<^verbatim>\<open>1/errs[i]\<close> at zero is \<^verbatim>\<open>inf\<close> (with a
  warning) and passes every finite threshold.
\<close>

definition snr_ok :: "real \<Rightarrow> real \<Rightarrow> bool" where
  "snr_ok err snr = (if err = 0 then True else 1 / err \<ge> snr)"

definition snr_indices :: "real list \<Rightarrow> real \<Rightarrow> nat list" where
  "snr_indices errs snr = filter (\<lambda>i. snr_ok (errs ! i) snr) [0..<length errs]"

text \<open>Lines 152-156.\<close>

definition window_indices :: "real list \<Rightarrow> real \<Rightarrow> real \<Rightarrow> nat list" where
  "window_indices phases start end_t =
     filter (\<lambda>i. phases ! i \<le> end_t \<and> phases ! i \<ge> start) [0..<length phases]"

text \<open>
  \<^verbatim>\<open>np.loadtxt\<close> gives a one-dimensional array for a file with fewer than two data rows, and
  \<^verbatim>\<open>photometry_data[:,0]\<close> then raises \<^verbatim>\<open>IndexError\<close>.
\<close>

definition read_in_photometry ::
  "(string \<Rightarrow> filter_meta option) \<Rightarrow> phot_row list \<Rightarrow> real \<Rightarrow> real \<Rightarrow> real \<Rightarrow> real \<Rightarrow> real
     \<Rightarrow> error + normalized" where
  "read_in_photometry index photometry_data dm redshift start end_t snr =
     (if length photometry_data < 2 then Inl IndexError
      else
        let phases = map row_phase photometry_data;
            errs = map row_err photometry_data
        in case lookup_filters index (map row_filter photometry_data) of
             Inl e \<Rightarrow> Inl e
           | Inr metas \<Rightarrow>
               let wv_effs = map WavelengthEff metas;
                   width_effs = map WidthEff metas;
                   my_filters = map row_filter photometry_data;
                   fluxes = map2 (row_flux dm redshift) photometry_data metas;
                   wv_corr = np_mean (map (\<lambda>w. w / (1 + redshift)) wv_effs)
               in case np_min fluxes of
                    Inl e \<Rightarrow> Inl e
                  | Inr fmin \<Rightarrow>
                      let flux_corr = fmin - 1.0;
                          wv_effs = map (\<lambda>w. w - wv_corr) wv_effs;
                          fluxes = map (\<lambda>f. f - flux_corr) fluxes;
                          gis = snr_indices errs snr;
                          phases = take_idx phases gis;
                          fluxes = take_idx fluxes gis;
                          wv_effs = take_idx wv_effs gis;
                          errs = take_idx errs gis;
                          width_effs = take_idx width_effs gis;
                          my_filters = take_idx my_filters gis
                      in case np_min phases of
                           Inl e \<Rightarrow> Inl e
                         | Inr pmin \<Rightarrow>
                             let phases = map (\<lambda>p. p - pmin) phases;
                                 gis = window_indices phases start end_t
                             in Inr \<lparr> lc_phases = take_idx phases gis,
                                      lc_fluxes = take_idx fluxes gis,
                                      lc_wv = map (\<lambda>w. w / 1000) (take_idx wv_effs gis),
                                      lc_errs = take_idx errs gis,
                                      lc_widths = take_idx width_effs gis,
                                      out_wv_corr = wv_corr,
                                      out_flux_corr = flux_corr,
                                      out_my_filters = take_idx my_filters gis \<rparr>)"

subsection \<open>Template Fitter: \<^verbatim>\<open>chi_square\<close> and \<^verbatim>\<open>fit_template\<close>\<close>

text \<open>Lines 56-61. The loop runs over \<^verbatim>\<open>np.arange(len(dat))\<close>.\<close>

definition chi_square :: "real list \<Rightarrow> real list \<Rightarrow> real list \<Rightarrow> real" where
  "chi_square dat model uncertainty =
     fold (\<lambda>i chi2. chi2 + ((model ! i - dat ! i) / uncertainty ! i) ^ 2) [0..<length dat] 0"

text \<open>
  Lines 279-284, the inner function \<^verbatim>\<open>model\<close>. The template interpolant is a parameter: a
  function of a time and a wavelength.
\<close>

definition model :: "(real \<Rightarrow> real \<Rightarrow> real) \<Rightarrow> real list \<Rightarrow> real \<Rightarrow> real \<Rightarrow> real \<Rightarrow> real \<Rightarrow> real list" where
  "model template_to_fit time filt A t_c t_s =
     (let time_sorted = sort time;
          time_corr = map (\<lambda>t. t * 1 / t_s + t_c) time_sorted
      in map (\<lambda>t. template_to_fit t filt + A) time_corr)"

text \<open>Line 291: \<^verbatim>\<open>np.where(filts * 1000 + wv_corr == wavelength)\<close>.\<close>

definition where_filter :: "real list \<Rightarrow> real \<Rightarrow> real \<Rightarrow> nat list" where
  "where_filter filts wv_corr wavelength =
     filter (\<lambda>i. filts ! i * 1000 + wv_corr = wavelength) [0..<length filts]"

text \<open>Lines 300-303: the chi-square that the loop stores for one candidate.\<close>

definition param_chi ::
  "(real \<Rightarrow> real \<Rightarrow> real) \<Rightarrow> real list \<Rightarrow> real list \<Rightarrow> real list \<Rightarrow> real list
     \<Rightarrow> real \<times> real \<times> real \<Rightarrow> real" where
  "param_chi template_to_fit wv dat_times dat_fluxes dat_errs popt =
     (case popt of (A, t_c, t_s) \<Rightarrow>
        fold (\<lambda>filt chi. chi + chi_square dat_fluxes (model template_to_fit dat_times filt A t_c t_s) dat_errs)
          wv 0)"

text \<open>
  The type of the least-squares routine as \<^verbatim>\<open>fit_template\<close> calls it: the function to fit,
  the abscissae, the ordinates and the initial guess; it returns the optimum or raises.
\<close>

type_synonym template_fit =
  "(real list \<Rightarrow> real \<Rightarrow> real \<Rightarrow> real \<Rightarrow> real list) \<Rightarrow> real list \<Rightarrow> real list \<Rightarrow> real \<times> real \<times> real
     \<Rightarrow> error + real \<times> real \<times> real"

text \<open>Lines 276-304: the loop over candidate filters; it collects the optimum and its chi-square.\<close>

fun candidates ::
  "template_fit \<Rightarrow> (real \<Rightarrow> real \<Rightarrow> real) \<Rightarrow> real list \<Rightarrow> real list \<Rightarrow> real \<Rightarrow> real list \<Rightarrow> real list
     \<Rightarrow> real list \<Rightarrow> real \<Rightarrow> real list \<Rightarrow> error + ((real \<times> real \<times> real) \<times> real) list" where
  "candidates curve_fit template_to_fit wv filts wv_corr flux time errs z [] = Inr []"
| "candidates curve_fit template_to_fit wv filts wv_corr flux time errs z (wavelength # rest) =
     (let gis = where_filter filts wv_corr wavelength;
          dat_fluxes = take_idx flux gis;
          dat_times = take_idx time gis;
          dat_errs = take_idx errs gis
      in case curve_fit (\<lambda>t A t_c t_s. model template_to_fit t wavelength A t_c t_s)
                dat_times dat_fluxes (20, 0, 1 + z) of
           Inl e \<Rightarrow> Inl e
         | Inr popt \<Rightarrow>
             (case candidates curve_fit template_to_fit wv filts wv_corr flux time errs z rest of
                Inl e \<Rightarrow> Inl e
              | Inr others \<Rightarrow>
                  Inr ((popt, param_chi template_to_fit wv dat_times dat_fluxes dat_errs popt) # others)))"

text \<open>\<^verbatim>\<open>np.argmin\<close>: the first index of the least element; \<^verbatim>\<open>ValueError\<close> on an empty list.\<close>

fun argmin_from :: "nat \<Rightarrow> real \<Rightarrow> nat \<Rightarrow> real list \<Rightarrow> nat" where
  "argmin_from best bv i [] = best"
| "argmin_from best bv i (x # xs) =
     (if x < bv then argmin_from i x (Suc i) xs else argmin_from best bv (Suc i) xs)"

definition np_argmin :: "real list \<Rightarrow> error + nat" where
  "np_argmin xs = (case xs of [] \<Rightarrow> Inl ValueError | x # rest \<Rightarrow> Inr (argmin_from 0 x 1 rest))"

text \<open>The four shapes of the return value (lines 317-326).\<close>

datatype fit_output =
    Params real real real
  | ParamsChi real real real real
  | Chi real
  | Zero

definition fit_template ::
  "template_fit \<Rightarrow> real list \<Rightarrow> (real \<Rightarrow> real \<Rightarrow> real) \<Rightarrow> real list \<Rightarrow> real \<Rightarrow> real list \<Rightarrow> real list
     \<Rightarrow> real list \<Rightarrow> real \<Rightarrow> bool \<Rightarrow> bool \<Rightarrow> error + fit_output" where
  "fit_template curve_fit wv template_to_fit filts wv_corr flux time errs z output_chi output_params =
     (case candidates curve_fit template_to_fit wv filts wv_corr flux time errs z wv of
        Inl e \<Rightarrow> Inl e
      | Inr cands \<Rightarrow>
          (case np_argmin (map snd cands) of
             Inl e \<Rightarrow> Inl e
           | Inr gi \<Rightarrow>
               (case cands ! gi of ((A_opt, t_c_opt, t_s_opt), chi2) \<Rightarrow>
                  if output_chi then
                    (if output_params then Inr (ParamsChi A_opt t_c_opt t_s_opt chi2) else Inr (Chi chi2))
                  else
                    (if \<not> output_params then Inr Zero else Inr (Params A_opt t_c_opt t_s_opt)))))"

text \<open>
  The aggregate chi-square in the words of the specification: the candidate's parameters are
  evaluated against every filter's own observations. It is compared with \<open>param_chi\<close> below.
\<close>

definition aggregate_chi_spec ::
  "(real \<Rightarrow> real \<Rightarrow> real) \<Rightarrow> real list \<Rightarrow> real list \<Rightarrow> real \<Rightarrow> real list \<Rightarrow> real list \<Rightarrow> real list
     \<Rightarrow> real \<times> real \<times> real \<Rightarrow> real" where
  "aggregate_chi_spec template_to_fit wv filts wv_corr flux time errs popt =
     (case popt of (A, t_c, t_s) \<Rightarrow>
        fold (\<lambda>filt chi.
                let gis = where_filter filts wv_corr filt
                in chi + chi_square (take_idx flux gis)
                           (model template_to_fit (take_idx time gis) filt A t_c t_s)
                           (take_idx errs gis))
          wv 0)"

text \<open>
  A template that is flat in time and a least-squares routine that returns the offset, with no
  shift and no stretch, at which the fitted curve passes through the first data point. On data
  that are constant in time this is an exact fit.
\<close>

definition flat_template :: "real \<Rightarrow> real \<Rightarrow> real" where
  "flat_template t wavelength = wavelength / 1000"

definition offset_fit :: template_fit where
  "offset_fit f xdata ydata p0 =
     (case ydata of
        [] \<Rightarrow> Inl ValueError
      | y # _ \<Rightarrow> (case f xdata 0 0 1 of [] \<Rightarrow> Inl ValueError | m # _ \<Rightarrow> Inr (y - m, 0, 1)))"

subsection \<open>Gaussian Process Interpolator: the dense grid of \<^verbatim>\<open>interpolate\<close>\<close>

definition epsilon :: real where
  "epsilon = 0.0001"

text \<open>\<^verbatim>\<open>np.unique\<close>: the distinct elements in ascending order.\<close>

definition np_unique :: "'a::linorder list \<Rightarrow> 'a list" where
  "np_unique xs = sort (remdups xs)"

text \<open>\<^verbatim>\<open>np.sqrt\<close>: \<^verbatim>\<open>nan\<close> below zero.\<close>

definition np_sqrt :: "real \<Rightarrow> real option" where
  "np_sqrt x = (if x < 0 then None else Some (sqrt x))"

text \<open>
  The Gaussian process after \<^verbatim>\<open>gp.compute\<close> and the optimisation of its hyperparameters
  (lines 415-435, calls into george and scipy): \<^verbatim>\<open>gp.predict(..., return_var=True)\<close> gives, for
  each query point (time, wavelength), a predictive mean and a predictive variance.
\<close>

record gp =
  predict_mean :: "real \<Rightarrow> real \<Rightarrow> real"
  predict_var :: "real \<Rightarrow> real \<Rightarrow> real"

text \<open>Lines 438-440: block \<open>jj\<close> of \<^verbatim>\<open>x_pred\<close> holds time \<open>jj\<close> against every unique filter.\<close>

definition x_pred_of :: "real list \<Rightarrow> real list \<Rightarrow> (real \<times> real) list" where
  "x_pred_of time_arr ufilts = concat (map (\<lambda>time. map (\<lambda>w. (time, w)) ufilts) time_arr)"

text \<open>Line 446: \<^verbatim>\<open>np.where(np.abs(x_pred[:, 1]-ufilts[jj])<epsilon)[0]\<close>.\<close>

definition near_indices :: "(real \<times> real) list \<Rightarrow> real \<Rightarrow> nat list" where
  "near_indices x_pred u = filter (\<lambda>i. \<bar>snd (x_pred ! i) - u\<bar> < epsilon) [0..<length x_pred]"

text \<open>
  The column assignment \<^verbatim>\<open>dense[:, jj] = v\<close>: numpy accepts a vector with one entry per row
  or a single entry (broadcast), and raises \<^verbatim>\<open>ValueError\<close> on any other length.
\<close>

definition set_column :: "'a list list \<Rightarrow> nat \<Rightarrow> 'a list \<Rightarrow> error + 'a list list" where
  "set_column M jj v =
     (if length v = length M then Inr (map2 (\<lambda>row x. row[jj := x]) M v)
      else if length v = 1 then Inr (map (\<lambda>row. row[jj := hd v]) M)
      else Inl ValueError)"

text \<open>Lines 445-448: the loop over the unique filters.\<close>

fun populate ::
  "real list \<Rightarrow> real list \<Rightarrow> (real \<times> real) list \<Rightarrow> real list \<Rightarrow> nat list
     \<Rightarrow> real list list \<times> real option list list \<Rightarrow> error + real list list \<times> real option list list" where
  "populate pred pred_var x_pred ufilts [] D = Inr D"
| "populate pred pred_var x_pred ufilts (jj # rest) D =
     (let gind = near_indices x_pred (ufilts ! jj)
      in case set_column (fst D) jj (take_idx pred gind) of
           Inl e \<Rightarrow> Inl e
         | Inr dense_fluxes \<Rightarrow>
             (case set_column (snd D) jj (map np_sqrt (take_idx pred_var gind)) of
                Inl e \<Rightarrow> Inl e
              | Inr dense_errs \<Rightarrow>
                  populate pred pred_var x_pred ufilts rest (dense_fluxes, dense_errs)))"

text \<open>
  \<^verbatim>\<open>interpolate\<close>, lines 379-391 and 437-451, for a fitted process. The result is
  \<^verbatim>\<open>dense_lc\<close>: one row per observation, one (flux, uncertainty) pair per unique filter.
\<close>

definition interpolate :: "gp \<Rightarrow> normalized \<Rightarrow> error + (real \<times> real option) list list" where
  "interpolate g lc =
     (let time_arr = lc_phases lc;
          ufilts = np_unique (lc_wv lc);
          nfilts = length ufilts;
          x_pred = x_pred_of time_arr ufilts;
          dense_fluxes = replicate (length time_arr) (replicate nfilts 0);
          dense_errs = replicate (length time_arr) (replicate nfilts (Some 0));
          pred = map (\<lambda>(t, w). predict_mean g t w) x_pred;
          pred_var = map (\<lambda>(t, w). predict_var g t w) x_pred
      in case populate pred pred_var x_pred ufilts [0..<nfilts] (dense_fluxes, dense_errs) of
           Inl e \<Rightarrow> Inl e
         | Inr D \<Rightarrow> Inr (map2 zip (fst D) (snd D)))"

subsection \<open>Blackbody Fitter: \<^verbatim>\<open>bbody\<close> and \<^verbatim>\<open>fit_bb\<close>\<close>

text \<open>The module constants \<^verbatim>\<open>c\<close>, \<^verbatim>\<open>sigsb\<close>, \<^verbatim>\<open>h\<close>, \<^verbatim>\<open>ang_to_cm\<close>, \<^verbatim>\<open>k_B\<close>.\<close>

definition c_light :: real where
  "c_light = 2.99792458 * 10 ^ 10"

definition sigsb :: real where
  "sigsb = 5.6704 / 10 ^ 5"

definition h_planck :: real where
  "h_planck = 6.62607 / 10 ^ 27"

definition ang_to_cm :: real where
  "ang_to_cm = 1 / 10 ^ 8"

definition k_B :: real where
  "k_B = 1.38064852 / 10 ^ 16"

definition bbody :: "real \<Rightarrow> real \<Rightarrow> real \<Rightarrow> real" where
  "bbody lam T R =
     (let lam_cm = lam * ang_to_cm;
          exponential = (h_planck * c_light) / (lam_cm * k_B * T);
          blam = ((2 * pi * h_planck * c_light ^ 2) / (lam_cm ^ 5)) / (exp exponential - 1);
          area = 4 * pi * R ^ 2;
          lum = blam * area
      in lum)"

text \<open>Elementwise arithmetic of two arrays follows numpy's broadcasting of one-dimensional shapes.\<close>

definition np_broadcast :: "'a list \<Rightarrow> 'b list \<Rightarrow> error + ('a \<times> 'b) list" where
  "np_broadcast xs ys =
     (if length xs = length ys then Inr (zip xs ys)
      else if length xs = 1 then Inr (map (\<lambda>y. (hd xs, y)) ys)
      else if length ys = 1 then Inr (map (\<lambda>x. (x, hd ys)) xs)
      else Inl ValueError)"

text \<open>Lines 485-492 for one filter of one epoch: \<^verbatim>\<open>flam\<close> and \<^verbatim>\<open>flam_err\<close>.\<close>

definition flam_of :: "real \<times> real option \<Rightarrow> real \<Rightarrow> real" where
  "flam_of d wv =
     (let fnu = 10 powr ((- fst d + 48.6) / - 2.5);
          fnu = fnu * 4 * pi * (3.086 * 10 ^ 19) ^ 2
      in fnu * c_light / (wv * ang_to_cm) ^ 2)"

definition flam_err_of :: "real \<times> real option \<Rightarrow> real \<Rightarrow> real option" where
  "flam_err_of d wv =
     map_option
       (\<lambda>ferr. \<bar>0.921034 * 10 powr (0.4 * fst d - 19.44)\<bar> * ferr * 4 * pi * (3.086 * 10 ^ 19) ^ 2
                 * c_light / (wv * ang_to_cm) ^ 2)
       (snd d)"

text \<open>
  \<^verbatim>\<open>curve_fit(bbody, wvs, flam, p0=(9000,1e15), sigma=flam_err)\<close> as \<^verbatim>\<open>fit_bb\<close> uses it: the
  optimum \<^verbatim>\<open>BBparams[0]\<close>, \<^verbatim>\<open>BBparams[1]\<close> and the diagonal of \<^verbatim>\<open>covar\<close>, or \<open>None\<close> when the
  call raises.
\<close>

type_synonym bb_fit =
  "(real \<Rightarrow> real \<Rightarrow> real \<Rightarrow> real) \<Rightarrow> real list \<Rightarrow> real list \<Rightarrow> real \<times> real \<Rightarrow> real option list
     \<Rightarrow> (real \<times> real \<times> real \<times> real) option"

text \<open>The fit of one epoch: \<open>(T1, R1, T1_err, R1_err)\<close>, lines 494-506.\<close>

type_synonym bb_result = "real option \<times> real option \<times> real option \<times> real option"

definition try_fit :: "bb_fit \<Rightarrow> real list \<Rightarrow> real list \<Rightarrow> real option list \<Rightarrow> bb_result" where
  "try_fit curve_fit wvs flam flam_err =
     (case curve_fit bbody wvs flam (9000, 10 ^ 15) flam_err of
        Some (BBparams0, BBparams1, covar00, covar11) \<Rightarrow>
          (Some BBparams0, Some \<bar>BBparams1\<bar>, np_sqrt covar00, np_sqrt covar11)
      | None \<Rightarrow> (None, None, None, None))"

definition fit_epoch :: "bb_fit \<Rightarrow> real list \<Rightarrow> (real \<times> real option) list \<Rightarrow> error + bb_result" where
  "fit_epoch curve_fit wvs datapoint =
     (case np_broadcast datapoint wvs of
        Inl e \<Rightarrow> Inl e
      | Inr dw \<Rightarrow>
          Inr (try_fit curve_fit wvs (map (\<lambda>(d, wv). flam_of d wv) dw)
                 (map (\<lambda>(d, wv). flam_err_of d wv) dw)))"

fun fit_epochs :: "bb_fit \<Rightarrow> real list \<Rightarrow> (real \<times> real option) list list \<Rightarrow> error + bb_result list" where
  "fit_epochs curve_fit wvs [] = Inr []"
| "fit_epochs curve_fit wvs (datapoint # rest) =
     (case fit_epoch curve_fit wvs datapoint of
        Inl e \<Rightarrow> Inl e
      | Inr r \<Rightarrow>
          (case fit_epochs curve_fit wvs rest of
             Inl e \<Rightarrow> Inl e
           | Inr rs \<Rightarrow> Inr (r # rs)))"

text \<open>The four arrays \<^verbatim>\<open>T_arr, R_arr, Terr_arr, Rerr_arr\<close>, in the order of the return statement.\<close>

record bb_arrays =
  T_arr :: "real option list"
  R_arr :: "real option list"
  Terr_arr :: "real option list"
  Rerr_arr :: "real option list"

definition fit_bb :: "bb_fit \<Rightarrow> (real \<times> real option) list list \<Rightarrow> real list \<Rightarrow> error + bb_arrays" where
  "fit_bb curve_fit dense_lc wvs =
     (case fit_epochs curve_fit wvs dense_lc of
        Inl e \<Rightarrow> Inl e
      | Inr rs \<Rightarrow>
          Inr \<lparr> T_arr = map (\<lambda>(T1, R1, T1_err, R1_err). T1) rs,
                R_arr = map (\<lambda>(T1, R1, T1_err, R1_err). R1) rs,
                Terr_arr = map (\<lambda>(T1, R1, T1_err, R1_err). T1_err) rs,
                Rerr_arr = map (\<lambda>(T1, R1, T1_err, R1_err). R1_err) rs \<rparr>)"

subsection \<open>Bolometric luminosity and the output table: \<^verbatim>\<open>main\<close> and \<^verbatim>\<open>write_output\<close>\<close>

text \<open>
  Lines 804-807, one element of the arrays. Every operand that is \<^verbatim>\<open>nan\<close> makes the result
  \<^verbatim>\<open>nan\<close>; the argument of the square root is a sum of squares.
\<close>

definition bol_lum_of :: "real option \<Rightarrow> real option \<Rightarrow> real option" where
  "bol_lum_of R T =
     (case R of
        None \<Rightarrow> None
      | Some r \<Rightarrow> (case T of None \<Rightarrow> None | Some t \<Rightarrow> Some (4 * pi * r ^ 2 * sigsb * t ^ 4)))"

definition bol_err_of :: "real option \<Rightarrow> real option \<Rightarrow> real option \<Rightarrow> real option \<Rightarrow> real option" where
  "bol_err_of R T R_err T_err =
     (case R of None \<Rightarrow> None | Some r \<Rightarrow>
      (case T of None \<Rightarrow> None | Some t \<Rightarrow>
       (case R_err of None \<Rightarrow> None | Some re \<Rightarrow>
        (case T_err of None \<Rightarrow> None | Some te \<Rightarrow>
           Some (4 * pi * sigsb * sqrt ((2 * r * t ^ 4 * re) ^ 2 + (4 * t ^ 3 * r ^ 2 * te) ^ 2))))))"

definition bol_lum_arr :: "bb_arrays \<Rightarrow> real option list" where
  "bol_lum_arr bb = map (\<lambda>i. bol_lum_of (R_arr bb ! i) (T_arr bb ! i)) [0..<length (T_arr bb)]"

definition bol_err_arr :: "bb_arrays \<Rightarrow> real option list" where
  "bol_err_arr bb =
     map (\<lambda>i. bol_err_of (R_arr bb ! i) (T_arr bb ! i) (Rerr_arr bb ! i) (Terr_arr bb ! i))
       [0..<length (T_arr bb)]"

text \<open>
  A number of the written table. \<^verbatim>\<open>np.log10\<close> gives \<^verbatim>\<open>-inf\<close> at zero and \<^verbatim>\<open>nan\<close> below zero
  and at \<^verbatim>\<open>nan\<close>.
\<close>

datatype cell = Num real | NaN | NegInf

definition cell_of :: "real option \<Rightarrow> cell" where
  "cell_of v = (case v of None \<Rightarrow> NaN | Some x \<Rightarrow> Num x)"

definition np_log10 :: "real option \<Rightarrow> cell" where
  "np_log10 v =
     (case v of
        None \<Rightarrow> NaN
      | Some x \<Rightarrow> if x > 0 then Num (log 10 x) else if x = 0 then NegInf else NaN)"

definition nan_neg :: "real option \<Rightarrow> real option" where
  "nan_neg v = map_option uminus v"

definition nan_div :: "real option \<Rightarrow> real \<Rightarrow> real option" where
  "nan_div v d = map_option (\<lambda>x. x / d) v"

text \<open>The table handed to \<^verbatim>\<open>ascii.write\<close>: the column names and the lines of the file.\<close>

record out_table =
  names :: "string list"
  table_rows :: "cell list list"

text \<open>Lines 693-700.\<close>

definition table_header_of :: "string list \<Rightarrow> string list" where
  "table_header_of my_filters =
     (let ufilts = np_unique my_filters
      in [''Time (MJD)''] @ concat (map (\<lambda>filt. [filt, filt @ ''_err'']) ufilts)
         @ [''Temp./1e3 (K)'', ''Temp. Err.'', ''Radius/1e15 (cm)'', ''Radius Err.'',
            ''Log10(Bol. Lum)'', ''Log10(Bol. Err)''])"

text \<open>Line 687: \<^verbatim>\<open>np.reshape(dense_lc,(len(dense_lc),-1))\<close> lays each epoch out as flux, error, flux, error, ...\<close>

definition flatten_row :: "(real \<times> real option) list \<Rightarrow> real option list" where
  "flatten_row row = concat (map (\<lambda>(f, e). [Some f, e]) row)"

text \<open>Lines 689-690, row \<open>i\<close> of the stacked and transposed array.\<close>

definition bb_cells :: "bb_arrays \<Rightarrow> real option list \<Rightarrow> real option list \<Rightarrow> nat \<Rightarrow> cell list" where
  "bb_cells bb bol_lum bol_err i =
     [cell_of (nan_div (T_arr bb ! i) (10 ^ 3)), cell_of (nan_div (Terr_arr bb ! i) (10 ^ 3)),
      cell_of (nan_div (R_arr bb ! i) (10 ^ 15)), cell_of (nan_div (Rerr_arr bb ! i) (10 ^ 15)),
      np_log10 (bol_lum ! i), np_log10 (bol_err ! i)]"

text \<open>
  \<^verbatim>\<open>write_output\<close>. The reshape raises on an empty light curve, \<^verbatim>\<open>np.hstack\<close> and \<^verbatim>\<open>np.stack\<close>
  raise when the numbers of rows differ, and \<^verbatim>\<open>Table\<close> raises when the number of names is not
  the number of columns. The formatting of the numbers (\<^verbatim>\<open>%0.3f\<close>) is not modelled.
\<close>

definition write_output ::
  "normalized \<Rightarrow> (real \<times> real option) list list \<Rightarrow> bb_arrays \<Rightarrow> real option list \<Rightarrow> real option list
     \<Rightarrow> string list \<Rightarrow> error + out_table" where
  "write_output lc dense_lc bb bol_lum bol_err my_filters =
     (let time_arr = lc_phases lc;
          n = length dense_lc
      in if n = 0 then Inl ValueError
         else if length time_arr \<noteq> n then Inl ValueError
         else if \<not> (length (Terr_arr bb) = length (T_arr bb) \<and> length (R_arr bb) = length (T_arr bb)
                    \<and> length (Rerr_arr bb) = length (T_arr bb) \<and> length bol_lum = length (T_arr bb)
                    \<and> length bol_err = length (T_arr bb))
           then Inl ValueError
         else if length (T_arr bb) \<noteq> n then Inl ValueError
         else
           let dense_flat = map flatten_row dense_lc;
               dense_t = map2 (\<lambda>t row. Some (- t) # row) time_arr dense_flat;
               tabledata = map (bb_cells bb bol_lum bol_err) [0..<n];
               tabledata = map2 (\<lambda>d b. map (\<lambda>v. cell_of (nan_neg v)) d @ b) dense_t tabledata;
               table_header = table_header_of my_filters
           in if length table_header \<noteq> length (hd tabledata) then Inl ValueError
              else Inr \<lparr> names = table_header, table_rows = tabledata \<rparr>)"

text \<open>
  \<^verbatim>\<open>np.unique(lc[:,2], return_index=True)\<close> also gives, for each unique value, the index of its
  first occurrence.
\<close>

fun first_index :: "'a list \<Rightarrow> 'a \<Rightarrow> nat" where
  "first_index [] x = 0"
| "first_index (y # ys) x = (if y = x then 0 else Suc (first_index ys x))"

text \<open>Lines 794-797: the filter names in the order of the dense columns, as the plots use them.\<close>

definition ufilts_of :: "normalized \<Rightarrow> string list" where
  "ufilts_of lc =
     (let wvs = np_unique (lc_wv lc);
          wvind = map (first_index (lc_wv lc)) wvs
      in take_idx (out_my_filters lc) wvind)"

text \<open>
  \<^verbatim>\<open>main\<close> from line 791 on, with the plots left out: interpolation, the flux correction added
  back, the blackbody fits, the luminosities and the table. Note that \<^verbatim>\<open>write_output\<close> receives
  \<^verbatim>\<open>my_filters\<close>, the filter name of every observation.
\<close>

definition main_table :: "gp \<Rightarrow> bb_fit \<Rightarrow> normalized \<Rightarrow> error + out_table" where
  "main_table g curve_fit lc =
     (case interpolate g lc of
        Inl e \<Rightarrow> Inl e
      | Inr dense_lc \<Rightarrow>
          let wvs = map (\<lambda>w. w * 1000.0 + out_wv_corr lc) (np_unique (lc_wv lc));
              dense_lc = map (map (\<lambda>(f, e). (f + out_flux_corr lc, e))) dense_lc
          in case fit_bb curve_fit dense_lc wvs of
               Inl e \<Rightarrow> Inl e
             | Inr bb \<Rightarrow>
                 write_output lc dense_lc bb (bol_lum_arr bb) (bol_err_arr bb) (out_my_filters lc))"

subsection \<open>Vocabulary for the properties of the Normalizer\<close>

text \<open>The index entry of a row's filter; every row has one once \<open>lookup_filters\<close> has succeeded.\<close>

definition meta_of :: "(string \<Rightarrow> filter_meta option) \<Rightarrow> phot_row \<Rightarrow> filter_meta" where
  "meta_of index r = the (index (row_filter r))"

text \<open>The rows that pass the signal-to-noise test, in input order.\<close>

definition snr_rows :: "phot_row list \<Rightarrow> real \<Rightarrow> phot_row list" where
  "snr_rows rows snr = filter (\<lambda>r. snr_ok (row_err r) snr) rows"

text \<open>The earliest time among them.\<close>

definition anchor :: "phot_row list \<Rightarrow> real \<Rightarrow> real" where
  "anchor rows snr = Min (set (map row_phase (snr_rows rows snr)))"

text \<open>The rows that also pass the time window, which is tested on the re-based time.\<close>

definition window_rows :: "phot_row list \<Rightarrow> real \<Rightarrow> real \<Rightarrow> real \<Rightarrow> phot_row list" where
  "window_rows rows snr start end_t =
     filter (\<lambda>r. row_phase r - anchor rows snr \<le> end_t \<and> row_phase r - anchor rows snr \<ge> start)
       (snr_rows rows snr)"

text \<open>
  The normalized wavelength in the words of the specification: de-redshift, subtract the mean of
  the de-redshifted wavelengths, scale by 1000. It is compared with \<open>lc_wv\<close> below.
\<close>

definition filterWavelength_spec :: "real \<Rightarrow> real list \<Rightarrow> real \<Rightarrow> real" where
  "filterWavelength_spec z all_raw raw =
     (raw / (1 + z) - np_mean (map (\<lambda>w. w / (1 + z)) all_raw)) / 1000"

text \<open>
  Inputs on which every linear flux of line 120 is positive, so that its logarithm is a number.
\<close>

definition positive_fluxes :: "(string \<Rightarrow> filter_meta option) \<Rightarrow> phot_row list \<Rightarrow> real \<Rightarrow> bool" where
  "positive_fluxes index rows z =
     (0 < 1 + z \<and> list_all (\<lambda>r. row_system r = ''AB'' \<or> 0 < ZeroPoint (meta_of index r)) rows)"

subsection \<open>A small filter index and input file\<close>

text \<open>
  Three filters whose alphabetical order (g, i, r) is not the order of their wavelengths
  (g, r, i), as for the SDSS filters.
\<close>

definition svo_example :: "string \<Rightarrow> filter_meta option" where
  "svo_example fid =
     (if fid = ''g'' then Some \<lparr> WavelengthEff = 4000, WidthEff = 1000, ZeroPoint = 3631 \<rparr>
      else if fid = ''r'' then Some \<lparr> WavelengthEff = 6000, WidthEff = 1000, ZeroPoint = 3631 \<rparr>
      else if fid = ''i'' then Some \<lparr> WavelengthEff = 8000, WidthEff = 1000, ZeroPoint = 3631 \<rparr>
      else None)"

text \<open>
  Three AB observations. The third has a signal-to-noise ratio of 1 and is the faintest.
\<close>

definition rows_example :: "phot_row list" where
  "rows_example =
     [\<lparr> row_phase = 10, row_mag = 0, row_err = 0.1, row_filter = ''r'', row_system = ''AB'' \<rparr>,
      \<lparr> row_phase = 12, row_mag = 0, row_err = 0.1, row_filter = ''i'', row_system = ''AB'' \<rparr>,
      \<lparr> row_phase = 11, row_mag = 2.5, row_err = 1, row_filter = ''g'', row_system = ''AB'' \<rparr>]"

subsection \<open>Vocabulary and data for the properties of the Blackbody Fitter\<close>

text \<open>The call of \<^verbatim>\<open>curve_fit\<close> at line 495 for one epoch of the dense light curve.\<close>

definition bb_call :: "bb_fit \<Rightarrow> real list \<Rightarrow> (real \<times> real option) list \<Rightarrow> (real \<times> real \<times> real \<times> real) option" where
  "bb_call curve_fit wvs datapoint =
     curve_fit bbody wvs (map2 flam_of datapoint wvs) (9000, 10 ^ 15) (map2 flam_err_of datapoint wvs)"

text \<open>
  A fitting routine that raises when an uncertainty is \<^verbatim>\<open>nan\<close> and otherwise returns the
  initial guess with the sign of the radius flipped, and the variances 1 and 4.
\<close>

definition nan_averse_fit :: bb_fit where
  "nan_averse_fit f xdata ydata p0 sigma =
     (if None \<in> set sigma then None else Some (fst p0, - snd p0, 1, 4))"

text \<open>Two epochs: a fit at 10000 K and \<open>10\<^sup>1\<^sup>5\<close> cm, and a failed fit.\<close>

definition bb_example :: bb_arrays where
  "bb_example =
     \<lparr> T_arr = [Some 10000, None], R_arr = [Some (10 ^ 15), None],
       Terr_arr = [Some 100, None], Rerr_arr = [Some (10 ^ 13), None] \<rparr>"

text \<open>Two epochs of one filter; the first has an undefined uncertainty.\<close>

definition dense_example :: "(real \<times> real option) list list" where
  "dense_example = [[(0, None)], [(0, Some 1)]]"

subsection \<open>Vocabulary and data for the properties of the dense light curve\<close>

text \<open>Any two different normalized wavelengths are at least \<open>epsilon\<close> apart.\<close>

definition separated :: "real list \<Rightarrow> bool" where
  "separated wvs = (\<forall>u \<in> set wvs. \<forall>v \<in> set wvs. u \<noteq> v \<longrightarrow> epsilon \<le> \<bar>u - v\<bar>)"

text \<open>A process whose predictive mean is time plus wavelength and whose variance is 1.\<close>

definition gp_example :: gp where
  "gp_example = \<lparr> predict_mean = (\<lambda>t w. t + w), predict_var = (\<lambda>t w. 1) \<rparr>"

text \<open>The light curve that the Normalizer returns on \<open>rows_example\<close> at redshift 0.\<close>

definition lc_example :: normalized where
  "lc_example =
     \<lparr> lc_phases = [0, 2], lc_fluxes = [3.5, 3.5], lc_wv = [0, 2], lc_errs = [0.1, 0.1],
       lc_widths = [1000, 1000], out_wv_corr = 6000, out_flux_corr = - 3.5,
       out_my_filters = [''r'', ''i''] \<rparr>"

text \<open>
  The same light curve with two filters whose effective wavelengths differ by 0.05 Angstrom,
  that is \<open>0.00005\<close> in the normalized unit.
\<close>

definition lc_close :: normalized where
  "lc_close =
     \<lparr> lc_phases = [0, 2], lc_fluxes = [3.5, 3.5], lc_wv = [0, 0.00005], lc_errs = [0.1, 0.1],
       lc_widths = [1000, 1000], out_wv_corr = 6000, out_flux_corr = - 3.5,
       out_my_filters = [''r'', ''i''] \<rparr>"

subsection \<open>Vocabulary for the properties of the output table\<close>

text \<open>
  Line \<open>i\<close> of the table: the negated row of \<^verbatim>\<open>hstack((-times, dense_lc))\<close>, followed by the six
  blackbody columns.
\<close>

definition table_row_of ::
  "normalized \<Rightarrow> (real \<times> real option) list list \<Rightarrow> bb_arrays \<Rightarrow> real option list \<Rightarrow> real option list
     \<Rightarrow> nat \<Rightarrow> cell list" where
  "table_row_of lc dense_lc bb bol_lum bol_err i =
     map (\<lambda>v. cell_of (nan_neg v)) (Some (- (lc_phases lc ! i)) # flatten_row (dense_lc ! i))
       @ bb_cells bb bol_lum bol_err i"

text \<open>
  The dense light curve of a process on separated wavelengths, with \<^verbatim>\<open>flux_corr\<close> added back to
  the fluxes (line 800).
\<close>

definition dense_shifted :: "gp \<Rightarrow> normalized \<Rightarrow> (real \<times> real option) list list" where
  "dense_shifted g lc =
     map (\<lambda>t. map (\<lambda>u. (predict_mean g t u + out_flux_corr lc, np_sqrt (predict_var g t u)))
                (np_unique (lc_wv lc)))
       (lc_phases lc)"

subsection \<open>Data for the properties of the Template Fitter\<close>

text \<open>
  Two filters at 4000 and 6000 Angstrom around a wavelength correction of 5000, three
  observations each at days 0, 1, 2, with constant log-flux 0 (uncertainty 1) in the first filter
  and 3 (uncertainty 2) in the second.
\<close>

definition tf_wv :: "real list" where
  "tf_wv = [4000, 6000]"

definition tf_filts :: "real list" where
  "tf_filts = [- 1, - 1, - 1, 1, 1, 1]"

definition tf_time :: "real list" where
  "tf_time = [0, 1, 2, 0, 1, 2]"

definition tf_flux :: "real list" where
  "tf_flux = [0, 0, 0, 3, 3, 3]"

definition tf_errs :: "real list" where
  "tf_errs = [1, 1, 1, 2, 2, 2]"

section \<open>Properties\<close>

subsection \<open>Helper facts about the numpy operations\<close>

lemma take_idx_filter:
  "take_idx (map f xs) (filter (\<lambda>i. P (xs ! i)) [0..<length xs]) = map f (filter P xs)"
proof -
  have "map f (filter P xs) = map f (filter P (map ((!) xs) [0..<length xs]))"
    by (simp add: map_nth)
  also have "\<dots> = map f (map ((!) xs) (filter (P \<circ> (!) xs) [0..<length xs]))"
    by (simp only: filter_map)
  also have "\<dots> = take_idx (map f xs) (filter (\<lambda>i. P (xs ! i)) [0..<length xs])"
    by (simp add: take_idx_def comp_def)
  finally show ?thesis by simp
qed

lemma snr_select:
  "take_idx (map f rows) (snr_indices (map row_err rows) snr)
     = map f (filter (\<lambda>r. snr_ok (row_err r) snr) rows)"
proof -
  have "snr_indices (map row_err rows) snr
          = filter (\<lambda>i. snr_ok (row_err (rows ! i)) snr) [0..<length rows]"
    unfolding snr_indices_def by (rule filter_cong) auto
  then show ?thesis
    using take_idx_filter [of f rows "\<lambda>r. snr_ok (row_err r) snr"] by simp
qed

lemma np_min_Inr: "np_min xs = Inr m \<Longrightarrow> xs \<noteq> [] \<and> m = Min (set xs)"
proof (cases xs)
  case Nil
  assume "np_min xs = Inr m"
  with Nil show ?thesis by (simp add: np_min_def)
next
  case (Cons a l)
  assume "np_min xs = Inr m"
  with Cons have "m = fold min l a" by (simp add: np_min_def)
  also have "\<dots> = Min (set (a # l))" by (rule Min.set_eq_fold [symmetric])
  finally show ?thesis using Cons by simp
qed

lemma lookup_filters_Inr:
  "lookup_filters index ids = Inr metas \<Longrightarrow>
     length metas = length ids \<and> (\<forall>i < length ids. index (ids ! i) = Some (metas ! i))"
proof (induction ids arbitrary: metas)
  case Nil
  then show ?case by simp
next
  case (Cons a ids)
  then show ?case
    by (auto split: option.splits sum.splits simp: nth_Cons split: nat.splits)
qed

subsection \<open>The log-flux scale\<close>

text \<open>
  Claim C5. For every positive linear flux \<open>f\<close>, converting to the log-flux scale of the
  Normalizer, \<open>2.5 * (log10 f - log10 3631)\<close>, and back recovers \<open>f\<close>.
\<close>

theorem log_flux_round_trip: "0 < f \<Longrightarrow> inv_log_flux (log_flux f) = f"
proof -
  assume pos: "0 < f"
  have "log_flux f / 2.5 = log 10 (f / 3631)"
    using pos by (simp add: log_flux_def log_divide)
  then have "inv_log_flux (log_flux f) = 3631 * 10 powr log 10 (f / 3631)"
    by (simp add: inv_log_flux_def)
  also have "\<dots> = 3631 * (f / 3631)"
    using pos by simp
  finally show ?thesis by simp
qed

theorem log_flux_round_trip_witness: "(0::real) < 3631 \<and> inv_log_flux (log_flux 3631) = 3631"
  using log_flux_round_trip [of 3631] by simp

subsection \<open>What \<open>read_in_photometry\<close> returns\<close>

lemma window_select:
  "take_idx (map f xs) (window_indices (map g xs) s e)
     = map f (filter (\<lambda>x. g x \<le> e \<and> g x \<ge> s) xs)"
proof -
  have "window_indices (map g xs) s e
          = filter (\<lambda>i. g (xs ! i) \<le> e \<and> g (xs ! i) \<ge> s) [0..<length xs]"
    unfolding window_indices_def by (rule filter_cong) auto
  then show ?thesis
    using take_idx_filter [of f xs "\<lambda>x. g x \<le> e \<and> g x \<ge> s"] by simp
qed

lemma lookup_filters_metas:
  assumes "lookup_filters index (map row_filter rows) = Inr metas"
  shows "metas = map (meta_of index) rows"
proof (rule nth_equalityI)
  from lookup_filters_Inr [OF assms] show "length metas = length (map (meta_of index) rows)"
    by simp
next
  fix i assume "i < length metas"
  with lookup_filters_Inr [OF assms] show "metas ! i = map (meta_of index) rows ! i"
    by (simp add: meta_of_def)
qed

lemma map2_same: "map2 h xs (map k xs) = map (\<lambda>x. h x (k x)) xs"
  by (induction xs) auto

lemma rip_char:
  assumes ok: "read_in_photometry index rows dm z start end_t snr = Inr res"
  defines "W \<equiv> window_rows rows snr start end_t"
  defines "wc \<equiv> np_mean (map (\<lambda>r. WavelengthEff (meta_of index r) / (1 + z)) rows)"
  defines "fc \<equiv> Min (set (map (\<lambda>r. row_flux dm z r (meta_of index r)) rows)) - 1"
  shows "2 \<le> length rows"
    and "snr_rows rows snr \<noteq> []"
    and "res = \<lparr> lc_phases = map (\<lambda>r. row_phase r - anchor rows snr) W,
                  lc_fluxes = map (\<lambda>r. row_flux dm z r (meta_of index r) - fc) W,
                  lc_wv = map (\<lambda>r. (WavelengthEff (meta_of index r) - wc) / 1000) W,
                  lc_errs = map row_err W,
                  lc_widths = map (\<lambda>r. WidthEff (meta_of index r)) W,
                  out_wv_corr = wc,
                  out_flux_corr = fc,
                  out_my_filters = map row_filter W \<rparr>"
proof -
  from ok show len: "2 \<le> length rows"
    unfolding read_in_photometry_def by (auto split: if_splits)
  from ok len obtain metas where metas: "lookup_filters index (map row_filter rows) = Inr metas"
    unfolding read_in_photometry_def by (auto simp: Let_def split: if_splits sum.splits)
  have m: "metas = map (meta_of index) rows" by (rule lookup_filters_metas [OF metas])
  define fluxes where "fluxes = map (\<lambda>r. row_flux dm z r (meta_of index r)) rows"
  have fl: "map2 (row_flux dm z) rows metas = fluxes"
    unfolding m fluxes_def by (rule map2_same)
  from ok len metas obtain fmin where fmin: "np_min fluxes = Inr fmin"
    unfolding read_in_photometry_def fl [symmetric]
    by (auto simp: Let_def split: if_splits sum.splits)
  have fc: "fmin - 1 = fc" using np_min_Inr [OF fmin] by (simp add: fc_def fluxes_def)
  define S where "S = snr_rows rows snr"
  have sel: "\<And>f. take_idx (map f rows) (snr_indices (map row_err rows) snr) = map f S"
    unfolding S_def snr_rows_def by (rule snr_select)
  from ok len metas fmin obtain pmin where pmin: "np_min (map row_phase S) = Inr pmin"
    unfolding read_in_photometry_def fl sel [symmetric]
    by (auto simp: Let_def split: if_splits sum.splits)
  from np_min_Inr [OF pmin] show "snr_rows rows snr \<noteq> []" by (simp add: S_def)
  have pm: "pmin = anchor rows snr" using np_min_Inr [OF pmin] by (simp add: anchor_def S_def)
  have W: "W = filter (\<lambda>r. row_phase r - pmin \<le> end_t \<and> row_phase r - pmin \<ge> start) S"
    by (simp add: W_def window_rows_def pm S_def)
  have win: "\<And>f. take_idx (map f S) (window_indices (map (\<lambda>r. row_phase r - pmin) S) start end_t) = map f W"
    unfolding W by (rule window_select)
  have wv: "map (\<lambda>w. w / (1 + z)) (map WavelengthEff metas) = map (\<lambda>r. WavelengthEff (meta_of index r) / (1 + z)) rows"
    by (simp add: m comp_def)
  have A1: "take_idx (map (\<lambda>f. f - fc) fluxes) (snr_indices (map row_err rows) snr)
             = map (\<lambda>r. row_flux dm z r (meta_of index r) - fc) S"
    using sel [of "\<lambda>r. row_flux dm z r (meta_of index r) - fc"] by (simp add: fluxes_def comp_def)
  have A2: "take_idx (map (\<lambda>w. w - wc) (map WavelengthEff metas)) (snr_indices (map row_err rows) snr)
             = map (\<lambda>r. WavelengthEff (meta_of index r) - wc) S"
    using sel [of "\<lambda>r. WavelengthEff (meta_of index r) - wc"] by (simp add: m comp_def)
  have A3: "take_idx (map WidthEff metas) (snr_indices (map row_err rows) snr)
             = map (\<lambda>r. WidthEff (meta_of index r)) S"
    using sel [of "\<lambda>r. WidthEff (meta_of index r)"] by (simp add: m comp_def)
  have A4: "map (\<lambda>p. p - pmin) (map row_phase S) = map (\<lambda>r. row_phase r - pmin) S"
    by (simp add: comp_def)
  from ok len show "res = \<lparr> lc_phases = map (\<lambda>r. row_phase r - anchor rows snr) W,
                  lc_fluxes = map (\<lambda>r. row_flux dm z r (meta_of index r) - fc) W,
                  lc_wv = map (\<lambda>r. (WavelengthEff (meta_of index r) - wc) / 1000) W,
                  lc_errs = map row_err W,
                  lc_widths = map (\<lambda>r. WidthEff (meta_of index r)) W,
                  out_wv_corr = wc,
                  out_flux_corr = fc,
                  out_my_filters = map row_filter W \<rparr>"
    unfolding read_in_photometry_def Let_def metas sum.case fl fmin wv wc_def [symmetric]
      A2 A3 sel pmin A4 win
    by (auto simp add: pm fc A1 win [unfolded pm] comp_def)
qed

text \<open>For an AB row the log-flux is the negated, distance-corrected magnitude plus the redshift term.\<close>

lemma row_flux_AB:
  assumes "row_system r = ''AB''" and "0 < 1 + z"
  shows "row_flux dm z r m = dm - row_mag r + 2.5 * log 10 (1 + z)"
proof -
  have "log 10 (10 powr ((row_mag r - dm) / - 2.5) * 3631 * (1 + z))
          = (row_mag r - dm) / - 2.5 + log 10 3631 + log 10 (1 + z)"
    using assms(2) by (simp add: log_mult)
  then show ?thesis
    using assms(1) by (simp add: row_flux_def log_flux_def Let_def algebra_simps diff_divide_distrib)
qed

lemma ex_ok: "\<exists>res. read_in_photometry svo_example rows_example 0 0 1 200 4 = Inr res"
  by (simp add: read_in_photometry_def rows_example_def svo_example_def Let_def np_min_def
      take_idx_def snr_indices_def snr_ok_def)

lemma ex_S: "snr_rows rows_example 4 = take 2 rows_example"
  by (simp add: snr_rows_def rows_example_def snr_ok_def)

lemma ex_anchor: "anchor rows_example 4 = 10"
  unfolding anchor_def ex_S by (simp add: rows_example_def)

lemma ex_W: "window_rows rows_example 4 1 200 = [rows_example ! 1]"
  unfolding window_rows_def ex_S ex_anchor by (simp add: rows_example_def)

subsection \<open>Times after normalisation\<close>

text \<open>
  Claim C3, as amended. The signal-to-noise filter comes first, the zero of time is the earliest
  row that passes it, and the window \<open>[start, end]\<close> is tested on the re-based times. Every
  output time is at least 0 and lies in the window. When the window contains 0 (as the default
  window does) the output is not empty and its least time is 0.
\<close>

theorem normalizer_times:
  assumes "read_in_photometry index rows dm z start end_t snr = Inr res"
  shows "lc_phases res = map (\<lambda>r. row_phase r - anchor rows snr) (window_rows rows snr start end_t)
       \<and> (\<forall>t \<in> set (lc_phases res). 0 \<le> t \<and> start \<le> t \<and> t \<le> end_t)
       \<and> (start \<le> 0 \<and> 0 \<le> end_t \<longrightarrow> lc_phases res \<noteq> [] \<and> Min (set (lc_phases res)) = 0)"
proof -
  define S where "S = snr_rows rows snr"
  define W where "W = window_rows rows snr start end_t"
  define a where "a = anchor rows snr"
  have ne: "S \<noteq> []" using rip_char(2) [OF assms] by (simp add: S_def)
  have ph: "lc_phases res = map (\<lambda>r. row_phase r - a) W"
    using rip_char(3) [OF assms] by (simp add: W_def a_def)
  have a_min: "a = Min (row_phase ` set S)" by (simp add: a_def anchor_def S_def)
  have a_le: "\<And>r. r \<in> set S \<Longrightarrow> a \<le> row_phase r"
    unfolding a_min by (rule Min_le) auto
  have a_in: "a \<in> row_phase ` set S"
    unfolding a_min using ne by (intro Min_in) auto
  have W_eq: "W = filter (\<lambda>r. row_phase r - a \<le> end_t \<and> row_phase r - a \<ge> start) S"
    by (simp add: W_def window_rows_def a_def S_def)
  have bounds: "\<forall>t \<in> set (lc_phases res). 0 \<le> t \<and> start \<le> t \<and> t \<le> end_t"
    unfolding ph W_eq using a_le by auto
  have zero: "lc_phases res \<noteq> [] \<and> Min (set (lc_phases res)) = 0" if "start \<le> 0 \<and> 0 \<le> end_t"
  proof -
    from a_in obtain r0 where r0: "r0 \<in> set S" "row_phase r0 = a" by auto
    with that have "r0 \<in> set W" by (simp add: W_eq)
    with r0 have in0: "0 \<in> set (lc_phases res)" unfolding ph by force
    then have ne': "lc_phases res \<noteq> []" by auto
    have "Min (set (lc_phases res)) = 0"
    proof (rule Min_eqI)
      show "finite (set (lc_phases res))" by simp
      show "\<And>y. y \<in> set (lc_phases res) \<Longrightarrow> 0 \<le> y" using bounds by simp
      show "0 \<in> set (lc_phases res)" by (rule in0)
    qed
    with ne' show ?thesis by simp
  qed
  from ph bounds zero show ?thesis by (simp add: W_def a_def)
qed

lemma ex_ok0: "\<exists>res. read_in_photometry svo_example rows_example 0 0 0 200 4 = Inr res"
  by (simp add: read_in_photometry_def rows_example_def svo_example_def Let_def np_min_def
      take_idx_def snr_indices_def snr_ok_def)

lemma ex_W0: "window_rows rows_example 4 0 200 = take 2 rows_example"
  unfolding window_rows_def ex_S ex_anchor by (simp add: rows_example_def)

theorem normalizer_times_witness:
  "map_sum id lc_phases (read_in_photometry svo_example rows_example 0 0 0 200 4) = Inr [0, 2]
   \<and> (0::real) \<le> 0 \<and> (0::real) \<le> 200 \<and> Min (set [0, 2::real]) = 0"
proof -
  from ex_ok0 obtain res where r: "read_in_photometry svo_example rows_example 0 0 0 200 4 = Inr res" ..
  have "lc_phases res = [0, 2]"
    using normalizer_times [OF r] unfolding ex_W0 ex_anchor by (simp add: rows_example_def)
  with r show ?thesis by simp
qed

text \<open>
  With a window that starts at 1, the observation at time 0 is itself removed: two observations
  pass the signal-to-noise test at days 10 and 12, only the second is kept, at time 2.
\<close>

theorem min_time_counterexample:
  "map_sum id lc_phases (read_in_photometry svo_example rows_example 0 0 1 200 4) = Inr [2]
   \<and> (0::real) < 1 \<and> Min (set [2::real]) \<noteq> 0"
proof -
  from ex_ok obtain res where r: "read_in_photometry svo_example rows_example 0 0 1 200 4 = Inr res" ..
  have "lc_phases res = [2]"
    using rip_char(3) [OF r] unfolding ex_W ex_anchor by (simp add: rows_example_def)
  with r show ?thesis by simp
qed

subsection \<open>Normalized wavelengths\<close>

text \<open>
  What lines 127-129 and 165 compute. The retained scalar is the mean of the effective
  wavelengths divided by \<open>1 + z\<close> (line 127). Line 129 subtracts it from the effective wavelengths
  as they are, not divided by \<open>1 + z\<close>. At redshift 0 the two agree.
\<close>

lemma filter_wavelength:
  assumes "read_in_photometry index rows dm z start end_t snr = Inr res" and "z \<noteq> - 1"
  shows "out_wv_corr res = np_mean (map (\<lambda>r. WavelengthEff (meta_of index r) / (1 + z)) rows)
       \<and> lc_wv res = map (\<lambda>r. (WavelengthEff (meta_of index r) - out_wv_corr res) / 1000)
                        (window_rows rows snr start end_t)
       \<and> (z = 0 \<longrightarrow> lc_wv res
            = map (\<lambda>r. filterWavelength_spec z (map (\<lambda>r. WavelengthEff (meta_of index r)) rows)
                          (WavelengthEff (meta_of index r)))
                (window_rows rows snr start end_t))"
proof -
  note r = rip_char(3) [OF assms(1)]
  have 1: "out_wv_corr res = np_mean (map (\<lambda>r. WavelengthEff (meta_of index r) / (1 + z)) rows)"
    unfolding r by simp
  have 2: "lc_wv res = map (\<lambda>r. (WavelengthEff (meta_of index r) - out_wv_corr res) / 1000)
                        (window_rows rows snr start end_t)"
    unfolding r by simp
  have 3: "lc_wv res
            = map (\<lambda>r. filterWavelength_spec z (map (\<lambda>r. WavelengthEff (meta_of index r)) rows)
                          (WavelengthEff (meta_of index r)))
                (window_rows rows snr start end_t)" if "z = 0"
    unfolding 2 1 using that by (simp add: filterWavelength_spec_def comp_def)
  from 1 2 3 show ?thesis by blast
qed

lemma ex_ok_z1: "\<exists>res. read_in_photometry svo_example rows_example 0 1 0 200 4 = Inr res"
  by (simp add: read_in_photometry_def rows_example_def svo_example_def Let_def np_min_def
      take_idx_def snr_indices_def snr_ok_def)

lemma ex_wc0: "np_mean (map (\<lambda>r. WavelengthEff (meta_of svo_example r) / (1 + 0)) rows_example) = 6000"
  by (simp add: np_mean_def rows_example_def meta_of_def svo_example_def)

lemma ex_wc1: "np_mean (map (\<lambda>r. WavelengthEff (meta_of svo_example r) / (1 + 1)) rows_example) = 3000"
  by (simp add: np_mean_def rows_example_def meta_of_def svo_example_def)

text \<open>The example file with a threshold of 1: all three rows pass both filters.\<close>

lemma ex_ok_all: "\<exists>res. read_in_photometry svo_example rows_example 0 1 0 200 1 = Inr res"
  by (simp add: read_in_photometry_def rows_example_def svo_example_def Let_def np_min_def
      take_idx_def snr_indices_def snr_ok_def)

lemma ex_S_all: "snr_rows rows_example 1 = rows_example"
  by (simp add: snr_rows_def rows_example_def snr_ok_def)

lemma ex_anchor_all: "anchor rows_example 1 = 10"
  unfolding anchor_def ex_S_all by (simp add: rows_example_def)

lemma ex_W_all: "window_rows rows_example 1 0 200 = rows_example"
  unfolding window_rows_def ex_S_all ex_anchor_all by (simp add: rows_example_def)

text \<open>
  Claim C4, evaluated on the example file at redshift 1. The retained scalar is the mean of the
  de-redshifted wavelengths, 3000, as the claim says. The output wavelengths are not the
  de-redshifted wavelengths minus that mean: the two surviving filters (6000 and 8000 Angstrom)
  come out at 3 and 5 where the claim gives 0 and 1, and when all three rows survive the output
  is 3, 5, 1, whose mean is 3 and not 0, where the claim gives 0, 1, -1.
\<close>

theorem wavelengths_not_deredshifted:
  "map_sum id out_wv_corr (read_in_photometry svo_example rows_example 0 1 0 200 4) = Inr 3000
   \<and> map_sum id lc_wv (read_in_photometry svo_example rows_example 0 1 0 200 4) = Inr [3, 5]
   \<and> map (filterWavelength_spec 1 [6000, 8000, 4000]) [6000, 8000] = [0, 1]
   \<and> map_sum id lc_wv (read_in_photometry svo_example rows_example 0 1 0 200 1) = Inr [3, 5, 1]
   \<and> np_mean [3, 5, 1] = 3
   \<and> map (filterWavelength_spec 1 [6000, 8000, 4000]) [6000, 8000, 4000] = [0, 1, - 1]"
proof -
  from ex_ok_z1 obtain res where r: "read_in_photometry svo_example rows_example 0 1 0 200 4 = Inr res" ..
  from ex_ok_all obtain res' where r': "read_in_photometry svo_example rows_example 0 1 0 200 1 = Inr res'" ..
  have 0: "out_wv_corr res = 3000"
    unfolding rip_char(3) [OF r] ex_wc1 by simp
  have 1: "lc_wv res = [3, 5]"
    unfolding rip_char(3) [OF r] ex_W0 ex_wc1
    by (simp add: rows_example_def meta_of_def svo_example_def)
  have 2: "lc_wv res' = [3, 5, 1]"
    unfolding rip_char(3) [OF r'] ex_W_all ex_wc1
    by (simp add: rows_example_def meta_of_def svo_example_def)
  have 3: "map (filterWavelength_spec 1 [6000, 8000, 4000]) [6000, 8000] = [0, 1]"
    by (simp add: filterWavelength_spec_def np_mean_def)
  have 4: "map (filterWavelength_spec 1 [6000, 8000, 4000]) [6000, 8000, 4000] = [0, 1, - 1]"
    by (simp add: filterWavelength_spec_def np_mean_def)
  have 5: "np_mean [3, 5, 1] = 3" by (simp add: np_mean_def)
  from r r' 0 1 2 3 4 5 show ?thesis by simp
qed

subsection \<open>The normalisation scalars range over all input rows\<close>

text \<open>
  Claim C10. The wavelength correction is the mean over all input rows and the flux correction
  is the least log-flux of all input rows minus 1, while the wavelengths and log-fluxes they are
  subtracted from are those of the rows that pass both filters.
\<close>

theorem corrections_over_all_rows:
  assumes "read_in_photometry index rows dm z start end_t snr = Inr res"
    and "positive_fluxes index rows z"
  shows "out_wv_corr res = np_mean (map (\<lambda>r. WavelengthEff (meta_of index r) / (1 + z)) rows)
       \<and> out_flux_corr res = Min (set (map (\<lambda>r. row_flux dm z r (meta_of index r)) rows)) - 1
       \<and> lc_wv res = map (\<lambda>r. (WavelengthEff (meta_of index r) - out_wv_corr res) / 1000)
                        (window_rows rows snr start end_t)
       \<and> lc_fluxes res = map (\<lambda>r. row_flux dm z r (meta_of index r) - out_flux_corr res)
                            (window_rows rows snr start end_t)"
  unfolding rip_char(3) [OF assms(1)] by simp

lemma ex_fluxes: "map (\<lambda>r. row_flux 0 0 r (meta_of svo_example r)) rows_example = [0, 0, - 2.5]"
  by (simp add: rows_example_def row_flux_AB)

theorem corrections_over_all_rows_witness:
  "positive_fluxes svo_example rows_example 0
   \<and> length (window_rows rows_example 4 0 200) < length rows_example
   \<and> map_sum id out_wv_corr (read_in_photometry svo_example rows_example 0 0 0 200 4) = Inr 6000
   \<and> map_sum id out_flux_corr (read_in_photometry svo_example rows_example 0 0 0 200 4) = Inr (- 3.5)
   \<and> map_sum id lc_wv (read_in_photometry svo_example rows_example 0 0 0 200 4) = Inr [0, 2]
   \<and> map_sum id lc_fluxes (read_in_photometry svo_example rows_example 0 0 0 200 4) = Inr [3.5, 3.5]"
proof -
  from ex_ok0 obtain res where r: "read_in_photometry svo_example rows_example 0 0 0 200 4 = Inr res" ..
  have p: "positive_fluxes svo_example rows_example 0"
    by (simp add: positive_fluxes_def rows_example_def)
  note t = corrections_over_all_rows [OF r p]
  have 1: "out_wv_corr res = 6000" using t unfolding ex_wc0 by simp
  have 2: "out_flux_corr res = - 3.5" using t unfolding ex_fluxes by simp
  have 3: "lc_wv res = [0, 2]"
    using t unfolding 1 ex_W0 by (simp add: rows_example_def meta_of_def svo_example_def)
  have 4: "lc_fluxes res = [3.5, 3.5]"
    using t unfolding 2 ex_W0 by (simp add: rows_example_def row_flux_AB)
  have 5: "length (window_rows rows_example 4 0 200) < length rows_example"
    unfolding ex_W0 by (simp add: rows_example_def)
  from r p 1 2 3 4 5 show ?thesis by simp
qed

subsection \<open>Blackbody fits\<close>

lemma fit_epoch_same_length:
  "length datapoint = length wvs \<Longrightarrow>
     fit_epoch curve_fit wvs datapoint
       = Inr (try_fit curve_fit wvs (map2 flam_of datapoint wvs) (map2 flam_err_of datapoint wvs))"
  by (simp add: fit_epoch_def np_broadcast_def)

lemma fit_epochs_same_length:
  "\<forall>d \<in> set dense_lc. length d = length wvs \<Longrightarrow>
     fit_epochs curve_fit wvs dense_lc
       = Inr (map (\<lambda>d. try_fit curve_fit wvs (map2 flam_of d wvs) (map2 flam_err_of d wvs)) dense_lc)"
  by (induction dense_lc) (simp_all add: fit_epoch_same_length)

lemma try_fit_None:
  "bb_call curve_fit wvs d = None \<Longrightarrow>
     try_fit curve_fit wvs (map2 flam_of d wvs) (map2 flam_err_of d wvs) = (None, None, None, None)"
  by (simp add: try_fit_def bb_call_def)

lemma try_fit_Some:
  "bb_call curve_fit wvs d = Some (p0, p1, c00, c11) \<Longrightarrow>
     try_fit curve_fit wvs (map2 flam_of d wvs) (map2 flam_err_of d wvs)
       = (Some p0, Some \<bar>p1\<bar>, np_sqrt c00, np_sqrt c11)"
  by (simp add: try_fit_def bb_call_def)

lemma fit_bb_same_length:
  assumes "\<forall>d \<in> set dense_lc. length d = length wvs"
  shows "fit_bb curve_fit dense_lc wvs =
     Inr \<lparr> T_arr = map (\<lambda>d. fst (try_fit curve_fit wvs (map2 flam_of d wvs) (map2 flam_err_of d wvs))) dense_lc,
           R_arr = map (\<lambda>d. fst (snd (try_fit curve_fit wvs (map2 flam_of d wvs) (map2 flam_err_of d wvs)))) dense_lc,
           Terr_arr = map (\<lambda>d. fst (snd (snd (try_fit curve_fit wvs (map2 flam_of d wvs) (map2 flam_err_of d wvs))))) dense_lc,
           Rerr_arr = map (\<lambda>d. snd (snd (snd (try_fit curve_fit wvs (map2 flam_of d wvs) (map2 flam_err_of d wvs))))) dense_lc \<rparr>"
  unfolding fit_bb_def fit_epochs_same_length [OF assms]
  by (simp add: comp_def case_prod_beta)

text \<open>
  Claim C6. On a dense light curve with one entry per reference wavelength, \<open>fit_bb\<close> returns
  four arrays with one entry per epoch, whatever the fitting routine does. For every epoch whose
  fit raises, the four entries are \<^verbatim>\<open>nan\<close>; for every epoch whose fit succeeds they are the fitted
  temperature, the absolute value of the fitted radius, and the square roots of the diagonal of
  the covariance.
\<close>

theorem fit_bb_failure_is_local:
  assumes "\<forall>d \<in> set dense_lc. length d = length wvs"
  shows "\<exists>bb. fit_bb curve_fit dense_lc wvs = Inr bb
          \<and> length (T_arr bb) = length dense_lc \<and> length (R_arr bb) = length dense_lc
          \<and> length (Terr_arr bb) = length dense_lc \<and> length (Rerr_arr bb) = length dense_lc
          \<and> (\<forall>i < length dense_lc.
                (bb_call curve_fit wvs (dense_lc ! i) = None \<longrightarrow>
                   T_arr bb ! i = None \<and> R_arr bb ! i = None
                   \<and> Terr_arr bb ! i = None \<and> Rerr_arr bb ! i = None)
              \<and> (\<forall>p0 p1 c00 c11. bb_call curve_fit wvs (dense_lc ! i) = Some (p0, p1, c00, c11) \<longrightarrow>
                   T_arr bb ! i = Some p0 \<and> R_arr bb ! i = Some \<bar>p1\<bar>
                   \<and> Terr_arr bb ! i = np_sqrt c00 \<and> Rerr_arr bb ! i = np_sqrt c11))"
  unfolding fit_bb_same_length [OF assms]
  by (auto simp: try_fit_None try_fit_Some)

theorem fit_bb_failure_is_local_witness:
  "\<exists>bb. fit_bb nan_averse_fit dense_example [5000] = Inr bb
     \<and> T_arr bb = [None, Some 9000] \<and> R_arr bb = [None, Some (10 ^ 15)]
     \<and> Terr_arr bb = [None, Some 1] \<and> Rerr_arr bb = [None, Some 2]"
proof -
  have len: "\<forall>d \<in> set dense_example. length d = length [5000::real]"
    by (simp add: dense_example_def)
  have c0: "bb_call nan_averse_fit [5000] (dense_example ! 0) = None"
    by (simp add: bb_call_def nan_averse_fit_def dense_example_def flam_err_of_def)
  have c1: "bb_call nan_averse_fit [5000] (dense_example ! 1) = Some (9000, - (10 ^ 15), 1, 4)"
    by (simp add: bb_call_def nan_averse_fit_def dense_example_def flam_err_of_def)
  from fit_bb_failure_is_local [OF len, of nan_averse_fit]
  obtain bb where bb: "fit_bb nan_averse_fit dense_example [5000] = Inr bb"
    and l: "length (T_arr bb) = length dense_example" "length (R_arr bb) = length dense_example"
      "length (Terr_arr bb) = length dense_example" "length (Rerr_arr bb) = length dense_example"
    and e: "\<forall>i < length dense_example.
                (bb_call nan_averse_fit [5000] (dense_example ! i) = None \<longrightarrow>
                   T_arr bb ! i = None \<and> R_arr bb ! i = None
                   \<and> Terr_arr bb ! i = None \<and> Rerr_arr bb ! i = None)
              \<and> (\<forall>p0 p1 c00 c11. bb_call nan_averse_fit [5000] (dense_example ! i) = Some (p0, p1, c00, c11) \<longrightarrow>
                   T_arr bb ! i = Some p0 \<and> R_arr bb ! i = Some \<bar>p1\<bar>
                   \<and> Terr_arr bb ! i = np_sqrt c00 \<and> Rerr_arr bb ! i = np_sqrt c11)"
    by blast
  have n: "length dense_example = 2" by (simp add: dense_example_def)
  from e n c0 have e0: "T_arr bb ! 0 = None" "R_arr bb ! 0 = None" "Terr_arr bb ! 0 = None" "Rerr_arr bb ! 0 = None"
    by auto
  from e n c1 have e1: "T_arr bb ! 1 = Some 9000" "R_arr bb ! 1 = Some (10 ^ 15)"
      "Terr_arr bb ! 1 = np_sqrt 1" "Rerr_arr bb ! 1 = np_sqrt 4"
    by auto
  have two: "\<And>xs a b. length xs = 2 \<Longrightarrow> xs ! 0 = a \<Longrightarrow> xs ! 1 = b \<Longrightarrow> xs = [a, b]"
    by (auto simp: length_Suc_conv numeral_2_eq_2)
  have s4: "np_sqrt 4 = Some 2" "np_sqrt 1 = Some 1"
    using real_sqrt_four by (simp_all add: np_sqrt_def)
  from two [OF l(1) [unfolded n] e0(1) e1(1)] two [OF l(2) [unfolded n] e0(2) e1(2)]
    two [OF l(3) [unfolded n] e0(3) e1(3)] two [OF l(4) [unfolded n] e0(4) e1(4)] bb s4
  show ?thesis by simp
qed

subsection \<open>Bolometric luminosity\<close>

text \<open>
  Claim C7. For every epoch with defined \<open>T\<close>, \<open>R\<close> and errors, the luminosity is
  \<open>4 pi R\<^sup>2 sigma T\<^sup>4\<close> and its uncertainty is
  \<open>4 pi sigma sqrt ((2 R T\<^sup>4 R_err)\<^sup>2 + (4 T\<^sup>3 R\<^sup>2 T_err)\<^sup>2)\<close>; for every epoch with undefined \<open>T\<close> or
  \<open>R\<close> both are undefined. The witness is the pair \<open>T = 10000\<close>, \<open>R = 10\<^sup>1\<^sup>5\<close>.
\<close>

theorem luminosity_closed_form:
  "\<forall>i < length (T_arr bb).
      (\<forall>T R T_err R_err.
          T_arr bb ! i = Some T \<and> R_arr bb ! i = Some R
          \<and> Terr_arr bb ! i = Some T_err \<and> Rerr_arr bb ! i = Some R_err \<longrightarrow>
            bol_lum_arr bb ! i = Some (4 * pi * R ^ 2 * sigsb * T ^ 4)
          \<and> bol_err_arr bb ! i
              = Some (4 * pi * sigsb * sqrt ((2 * R * T ^ 4 * R_err) ^ 2 + (4 * T ^ 3 * R ^ 2 * T_err) ^ 2)))
    \<and> (T_arr bb ! i = None \<or> R_arr bb ! i = None \<longrightarrow>
          bol_lum_arr bb ! i = None \<and> bol_err_arr bb ! i = None)"
  by (auto simp: bol_lum_arr_def bol_err_arr_def bol_lum_of_def bol_err_of_def split: option.splits)

theorem luminosity_closed_form_witness:
  "bol_lum_arr bb_example ! 0 = Some (4 * pi * (10 ^ 15) ^ 2 * sigsb * 10000 ^ 4)
   \<and> bol_err_arr bb_example ! 0
       = Some (4 * pi * sigsb * sqrt ((2 * 10 ^ 15 * 10000 ^ 4 * 10 ^ 13) ^ 2
                                       + (4 * 10000 ^ 3 * (10 ^ 15) ^ 2 * 100) ^ 2))
   \<and> bol_lum_arr bb_example ! 1 = None \<and> bol_err_arr bb_example ! 1 = None"
proof -
  have n: "length (T_arr bb_example) = 2" by (simp add: bb_example_def)
  have v0: "T_arr bb_example ! 0 = Some 10000 \<and> R_arr bb_example ! 0 = Some (10 ^ 15)
            \<and> Terr_arr bb_example ! 0 = Some 100 \<and> Rerr_arr bb_example ! 0 = Some (10 ^ 13)"
    by (simp add: bb_example_def)
  have v1: "T_arr bb_example ! 1 = None \<or> R_arr bb_example ! 1 = None"
    by (simp add: bb_example_def)
  from luminosity_closed_form [of bb_example] n
  have a: "\<forall>T R T_err R_err.
          T_arr bb_example ! 0 = Some T \<and> R_arr bb_example ! 0 = Some R
          \<and> Terr_arr bb_example ! 0 = Some T_err \<and> Rerr_arr bb_example ! 0 = Some R_err \<longrightarrow>
            bol_lum_arr bb_example ! 0 = Some (4 * pi * R ^ 2 * sigsb * T ^ 4)
          \<and> bol_err_arr bb_example ! 0
              = Some (4 * pi * sigsb * sqrt ((2 * R * T ^ 4 * R_err) ^ 2 + (4 * T ^ 3 * R ^ 2 * T_err) ^ 2))"
    and b: "T_arr bb_example ! 1 = None \<or> R_arr bb_example ! 1 = None \<longrightarrow>
          bol_lum_arr bb_example ! 1 = None \<and> bol_err_arr bb_example ! 1 = None"
    by auto
  from a v0 b v1 show ?thesis by blast
qed

subsection \<open>The dense light curve\<close>

lemma near_select:
  "take_idx (map f x_pred) (near_indices x_pred u)
     = map f (filter (\<lambda>x. \<bar>snd x - u\<bar> < epsilon) x_pred)"
  unfolding near_indices_def by (rule take_idx_filter)

lemma filter_x_pred:
  assumes "filter (\<lambda>w. \<bar>w - u\<bar> < epsilon) ufilts = [u]"
  shows "filter (\<lambda>x. \<bar>snd x - u\<bar> < epsilon) (x_pred_of ts ufilts) = map (\<lambda>t. (t, u)) ts"
proof -
  have one: "\<And>t. filter (\<lambda>x. \<bar>snd x - u\<bar> < epsilon) (map (\<lambda>w. (t, w)) ufilts) = [(t, u)]"
    using assms by (simp add: filter_map comp_def)
  show ?thesis
    unfolding x_pred_of_def by (induction ts) (simp_all add: one)
qed

lemma filter_eq_single: "distinct xs \<Longrightarrow> u \<in> set xs \<Longrightarrow> filter (\<lambda>w. w = u) xs = [u]"
proof (induction xs)
  case Nil
  then show ?case by simp
next
  case (Cons a xs)
  show ?case
  proof (cases "a = u")
    case True
    with Cons.prems have "u \<notin> set xs" by simp
    then have "filter (\<lambda>w. w = u) xs = []" by (auto simp: filter_empty_conv)
    with True show ?thesis by simp
  next
    case False
    with Cons show ?thesis by simp
  qed
qed

lemma near_single:
  assumes "separated wvs" and "j < length (np_unique wvs)"
  shows "filter (\<lambda>w. \<bar>w - np_unique wvs ! j\<bar> < epsilon) (np_unique wvs) = [np_unique wvs ! j]"
proof -
  let ?us = "np_unique wvs" and ?u = "np_unique wvs ! j"
  have s: "set ?us = set wvs" and d: "distinct ?us" by (simp_all add: np_unique_def)
  have u: "?u \<in> set ?us" using assms(2) by simp
  have "filter (\<lambda>w. \<bar>w - ?u\<bar> < epsilon) ?us = filter (\<lambda>w. w = ?u) ?us"
  proof (rule filter_cong [OF refl])
    fix w assume w: "w \<in> set ?us"
    show "(\<bar>w - ?u\<bar> < epsilon) = (w = ?u)"
    proof
      assume near: "\<bar>w - ?u\<bar> < epsilon"
      show "w = ?u"
      proof (rule ccontr)
        assume "w \<noteq> ?u"
        with w u s assms(1) have "epsilon \<le> \<bar>w - ?u\<bar>" by (simp add: separated_def)
        with near show False by simp
      qed
    next
      assume "w = ?u"
      then show "\<bar>w - ?u\<bar> < epsilon" by (simp add: epsilon_def)
    qed
  qed
  also have "\<dots> = [?u]" by (rule filter_eq_single [OF d u])
  finally show ?thesis .
qed

lemma set_column_same_length:
  "length v = length M \<Longrightarrow> set_column M jj v = Inr (map2 (\<lambda>row x. row[jj := x]) M v)"
  by (simp add: set_column_def)

lemma populate_separated:
  assumes "\<forall>j \<in> set js. j < length ufilts"
    and "\<forall>j < length ufilts. filter (\<lambda>w. \<bar>w - ufilts ! j\<bar> < epsilon) ufilts = [ufilts ! j]"
    and "length F = length ts" and "length E = length ts"
  shows "populate (map fm (x_pred_of ts ufilts)) (map fv (x_pred_of ts ufilts)) (x_pred_of ts ufilts) ufilts js (F, E)
       = Inr (fold (\<lambda>jj F. map2 (\<lambda>row x. row[jj := x]) F (map (\<lambda>t. fm (t, ufilts ! jj)) ts)) js F,
              fold (\<lambda>jj E. map2 (\<lambda>row x. row[jj := x]) E (map (\<lambda>t. np_sqrt (fv (t, ufilts ! jj))) ts)) js E)"
  using assms
proof (induction js arbitrary: F E)
  case Nil
  then show ?case by simp
next
  case (Cons jj js)
  from Cons.prems have jj: "jj < length ufilts" by simp
  with Cons.prems(2) have single: "filter (\<lambda>w. \<bar>w - ufilts ! jj\<bar> < epsilon) ufilts = [ufilts ! jj]"
    by simp
  have cm: "take_idx (map fm (x_pred_of ts ufilts)) (near_indices (x_pred_of ts ufilts) (ufilts ! jj))
              = map (\<lambda>t. fm (t, ufilts ! jj)) ts"
    by (simp add: near_select filter_x_pred [OF single] comp_def)
  have cv: "map np_sqrt (take_idx (map fv (x_pred_of ts ufilts)) (near_indices (x_pred_of ts ufilts) (ufilts ! jj)))
              = map (\<lambda>t. np_sqrt (fv (t, ufilts ! jj))) ts"
    by (simp add: near_select filter_x_pred [OF single] comp_def)
  let ?F' = "map2 (\<lambda>row x. row[jj := x]) F (map (\<lambda>t. fm (t, ufilts ! jj)) ts)"
  let ?E' = "map2 (\<lambda>row x. row[jj := x]) E (map (\<lambda>t. np_sqrt (fv (t, ufilts ! jj))) ts)"
  have sF: "set_column F jj (map (\<lambda>t. fm (t, ufilts ! jj)) ts) = Inr ?F'"
    by (rule set_column_same_length) (simp add: Cons.prems)
  have sE: "set_column E jj (map (\<lambda>t. np_sqrt (fv (t, ufilts ! jj))) ts) = Inr ?E'"
    by (rule set_column_same_length) (simp add: Cons.prems)
  have lF: "length ?F' = length ts" and lE: "length ?E' = length ts"
    using Cons.prems by simp_all
  have rest: "\<forall>j \<in> set js. j < length ufilts" using Cons.prems by simp
  show ?case
    by (simp add: Let_def cm cv sF sE Cons.IH [OF rest Cons.prems(2) lF lE])
qed

lemma fold_columns_nth:
  "length F = length ts \<Longrightarrow>
     length (fold (\<lambda>jj F. map2 (\<lambda>row x. row[jj := x]) F (map (\<lambda>t. h t jj) ts)) js F) = length ts
     \<and> (\<forall>i < length ts.
          fold (\<lambda>jj F. map2 (\<lambda>row x. row[jj := x]) F (map (\<lambda>t. h t jj) ts)) js F ! i
            = fold (\<lambda>jj row. row[jj := h (ts ! i) jj]) js (F ! i))"
proof (induction js arbitrary: F)
  case Nil
  then show ?case by simp
next
  case (Cons jj js)
  let ?F' = "map2 (\<lambda>row x. row[jj := x]) F (map (\<lambda>t. h t jj) ts)"
  have l: "length ?F' = length ts" using Cons.prems by simp
  have n: "\<And>i. i < length ts \<Longrightarrow> ?F' ! i = (F ! i)[jj := h (ts ! i) jj]"
    using Cons.prems by simp
  from Cons.IH [OF l] n show ?case by simp
qed

lemma fold_update_length: "length (fold (\<lambda>jj row. row[jj := c jj]) js row) = length row"
  by (induction js arbitrary: row) simp_all

lemma fold_update_nth:
  "k < length row \<Longrightarrow>
     fold (\<lambda>jj row. row[jj := c jj]) js row ! k = (if k \<in> set js then c k else row ! k)"
  by (induction js arbitrary: row) (auto simp: nth_list_update)

lemma fold_update_all:
  "fold (\<lambda>jj row. row[jj := c jj]) [0..<m] (replicate m z) = map c [0..<m]"
  by (rule nth_equalityI) (simp_all add: fold_update_length fold_update_nth)

lemma map_nth_fun: "map (\<lambda>k. f (xs ! k)) [0..<length xs] = map f xs"
  by (rule nth_equalityI) simp_all

lemma fill_all:
  "fold (\<lambda>jj F. map2 (\<lambda>row x. row[jj := x]) F (map (\<lambda>t. f (t, ufilts ! jj)) ts)) [0..<length ufilts]
     (replicate (length ts) (replicate (length ufilts) z))
   = map (\<lambda>t. map (\<lambda>u. f (t, u)) ufilts) ts"
    (is "?L = ?R")
proof (rule nth_equalityI)
  note c = fold_columns_nth [of "replicate (length ts) (replicate (length ufilts) z)" ts
      "\<lambda>t jj. f (t, ufilts ! jj)" "[0..<length ufilts]", simplified]
  show "length ?L = length ?R" using c by simp
  fix i assume "i < length ?L"
  with c have i: "i < length ts" by simp
  with c have "?L ! i = fold (\<lambda>jj row. row[jj := f (ts ! i, ufilts ! jj)]) [0..<length ufilts]
                           (replicate (length ufilts) z)"
    by simp
  also have "\<dots> = map (\<lambda>jj. f (ts ! i, ufilts ! jj)) [0..<length ufilts]"
    by (rule fold_update_all)
  also have "\<dots> = map (\<lambda>u. f (ts ! i, u)) ufilts"
    by (rule map_nth_fun [of "\<lambda>u. f (ts ! i, u)"])
  finally show "?L ! i = ?R ! i" using i by simp
qed

text \<open>On separated wavelengths the dense light curve is the process evaluated on the grid.\<close>

lemma interpolate_separated:
  assumes "separated (lc_wv lc)"
  shows "interpolate g lc
     = Inr (map (\<lambda>t. map (\<lambda>u. (predict_mean g t u, np_sqrt (predict_var g t u)))
                        (np_unique (lc_wv lc)))
              (lc_phases lc))"
proof -
  let ?us = "np_unique (lc_wv lc)" and ?ts = "lc_phases lc"
  have p: "populate (map (\<lambda>(t, w). predict_mean g t w) (x_pred_of ?ts ?us))
             (map (\<lambda>(t, w). predict_var g t w) (x_pred_of ?ts ?us)) (x_pred_of ?ts ?us) ?us
             [0..<length ?us]
             (replicate (length ?ts) (replicate (length ?us) 0),
              replicate (length ?ts) (replicate (length ?us) (Some 0)))
        = Inr (map (\<lambda>t. map (\<lambda>u. predict_mean g t u) ?us) ?ts,
               map (\<lambda>t. map (\<lambda>u. np_sqrt (predict_var g t u)) ?us) ?ts)"
    by (subst populate_separated)
      (simp_all add: near_single [OF assms]
         fill_all [where f = "\<lambda>(t, w). predict_mean g t w", simplified]
         fill_all [where f = "\<lambda>x. np_sqrt ((\<lambda>(t, w). predict_var g t w) x)", simplified])
  have z: "map2 zip (map (\<lambda>t. map (\<lambda>u. predict_mean g t u) ?us) ?ts)
                    (map (\<lambda>t. map (\<lambda>u. np_sqrt (predict_var g t u)) ?us) ?ts)
           = map (\<lambda>t. map (\<lambda>u. (predict_mean g t u, np_sqrt (predict_var g t u))) ?us) ?ts"
    by (simp add: zip_map_map zip_same_conv_map comp_def)
  show ?thesis
    unfolding interpolate_def Let_def p by (simp add: z)
qed

lemma length_concat_grid: "length (concat (map (\<lambda>t. map (f t) us) ts)) = length ts * length us"
  by (induction ts) simp_all

text \<open>
  Where the columns can be told apart: when any two different filter wavelengths of the light
  curve are at least \<open>epsilon\<close> apart, \<open>interpolate\<close> returns one row per observation and one
  entry per unique filter, and the entry for observation \<open>i\<close> and filter \<open>k\<close> is the predictive
  mean, and the square root of the predictive variance, at the time of observation \<open>i\<close> and the
  wavelength of filter \<open>k\<close>.
\<close>

lemma dense_grid:
  assumes "separated (lc_wv lc)"
  shows "\<exists>dense_lc. interpolate g lc = Inr dense_lc
          \<and> length dense_lc = length (lc_phases lc)
          \<and> length (concat dense_lc) = length (lc_phases lc) * length (np_unique (lc_wv lc))
          \<and> (\<forall>i < length (lc_phases lc).
                length (dense_lc ! i) = length (np_unique (lc_wv lc))
              \<and> (\<forall>k < length (np_unique (lc_wv lc)).
                    dense_lc ! i ! k
                      = (predict_mean g (lc_phases lc ! i) (np_unique (lc_wv lc) ! k),
                         np_sqrt (predict_var g (lc_phases lc ! i) (np_unique (lc_wv lc) ! k)))))"
  unfolding interpolate_separated [OF assms]
  by (simp add: length_concat_grid)

lemma uniq_example: "np_unique [0, 2 :: real] = [0, 2]"
  by (simp add: np_unique_def)

text \<open>How many predictions line 446 selects for one filter.\<close>

lemma x_pred_near_length:
  "length (filter (\<lambda>x. \<bar>snd x - u\<bar> < epsilon) (x_pred_of ts us))
     = length ts * length (filter (\<lambda>w. \<bar>w - u\<bar> < epsilon) us)"
proof -
  have one: "\<And>t. filter (\<lambda>x. \<bar>snd x - u\<bar> < epsilon) (map (\<lambda>w. (t, w)) us)
               = map (\<lambda>w. (t, w)) (filter (\<lambda>w. \<bar>w - u\<bar> < epsilon) us)"
    by (simp add: filter_map comp_def)
  show ?thesis
    unfolding x_pred_of_def by (induction ts) (simp_all add: one)
qed

lemma set_column_mismatch:
  assumes "length M = n" and "length v = n * c" and "1 \<le> n" and "2 \<le> c"
  shows "set_column M jj v = Inl ValueError"
proof -
  from assms(4) have "n * 2 \<le> n * c" by simp
  with assms(3) have "n < n * c" and "1 < n * c" by linarith+
  with assms(1,2) show ?thesis by (simp add: set_column_def)
qed

lemma two_elements: "x \<in> set xs \<Longrightarrow> y \<in> set xs \<Longrightarrow> x \<noteq> y \<Longrightarrow> 2 \<le> length xs"
proof -
  assume a: "x \<in> set xs" "y \<in> set xs" "x \<noteq> y"
  then have "{x, y} \<subseteq> set xs" by simp
  then have "card {x, y} \<le> card (set xs)" by (intro card_mono) simp_all
  with a(3) have "2 \<le> card (set xs)" by simp
  also have "\<dots> \<le> length xs" by (rule card_length)
  finally show ?thesis .
qed

text \<open>
  The loop of lines 445-448 raises as soon as it reaches a filter that has another unique
  wavelength within \<open>epsilon\<close>; the filters before it are assigned as usual.
\<close>

lemma populate_crowded:
  assumes "1 \<le> length ts" and "length F = length ts" and "length E = length ts"
    and "\<forall>j \<in> set js. j < length us"
    and "\<exists>j \<in> set js. 2 \<le> length (filter (\<lambda>w. \<bar>w - us ! j\<bar> < epsilon) us)"
  shows "populate (map fm (x_pred_of ts us)) (map fv (x_pred_of ts us)) (x_pred_of ts us) us js (F, E)
           = Inl ValueError"
  using assms(2-5)
proof (induction js arbitrary: F E)
  case Nil
  then show ?case by simp
next
  case (Cons jj js)
  let ?X = "x_pred_of ts us"
  let ?c = "length (filter (\<lambda>w. \<bar>w - us ! jj\<bar> < epsilon) us)"
  have jj: "jj < length us" using Cons.prems by simp
  have vm: "take_idx (map fm ?X) (near_indices ?X (us ! jj))
              = map fm (filter (\<lambda>x. \<bar>snd x - us ! jj\<bar> < epsilon) ?X)"
    by (rule near_select)
  have vv: "take_idx (map fv ?X) (near_indices ?X (us ! jj))
              = map fv (filter (\<lambda>x. \<bar>snd x - us ! jj\<bar> < epsilon) ?X)"
    by (rule near_select)
  have lm: "length (take_idx (map fm ?X) (near_indices ?X (us ! jj))) = length ts * ?c"
    unfolding vm by (simp add: x_pred_near_length)
  have lv: "length (take_idx (map fv ?X) (near_indices ?X (us ! jj))) = length ts * ?c"
    unfolding vv by (simp add: x_pred_near_length)
  show ?case
  proof (cases "2 \<le> ?c")
    case True
    have "set_column F jj (take_idx (map fm ?X) (near_indices ?X (us ! jj))) = Inl ValueError"
      by (rule set_column_mismatch [OF Cons.prems(1) lm assms(1) True])
    then show ?thesis by (simp add: Let_def)
  next
    case False
    have "us ! jj \<in> set (filter (\<lambda>w. \<bar>w - us ! jj\<bar> < epsilon) us)"
      using jj by (simp add: epsilon_def)
    then have "1 \<le> ?c" by (metis length_pos_if_in_set less_eq_Suc_le One_nat_def)
    with False have c1: "?c = 1" by simp
    have sF: "set_column F jj (take_idx (map fm ?X) (near_indices ?X (us ! jj)))
               = Inr (map2 (\<lambda>row x. row[jj := x]) F (take_idx (map fm ?X) (near_indices ?X (us ! jj))))"
      by (rule set_column_same_length) (simp add: lm c1 Cons.prems(1))
    have sE: "set_column E jj (map np_sqrt (take_idx (map fv ?X) (near_indices ?X (us ! jj))))
               = Inr (map2 (\<lambda>row x. row[jj := x]) E (map np_sqrt (take_idx (map fv ?X) (near_indices ?X (us ! jj)))))"
      by (rule set_column_same_length) (simp add: lv c1 Cons.prems(2))
    have lF: "length (map2 (\<lambda>row x. row[jj := x]) F (take_idx (map fm ?X) (near_indices ?X (us ! jj)))) = length ts"
      using lm by (simp add: c1 Cons.prems(1))
    have lE: "length (map2 (\<lambda>row x. row[jj := x]) E (map np_sqrt (take_idx (map fv ?X) (near_indices ?X (us ! jj))))) = length ts"
      using lv by (simp add: c1 Cons.prems(2))
    have rest: "\<forall>j \<in> set js. j < length us" using Cons.prems by simp
    have crowd: "\<exists>j \<in> set js. 2 \<le> length (filter (\<lambda>w. \<bar>w - us ! j\<bar> < epsilon) us)"
      using Cons.prems(4) False by auto
    show ?thesis
      by (simp add: Let_def sF sE Cons.IH [OF lF lE rest crowd])
  qed
qed

lemma crowded_index:
  assumes "\<not> separated wvs"
  shows "\<exists>j < length (np_unique wvs).
           2 \<le> length (filter (\<lambda>w. \<bar>w - np_unique wvs ! j\<bar> < epsilon) (np_unique wvs))"
proof -
  let ?us = "np_unique wvs"
  have s: "set ?us = set wvs" by (simp add: np_unique_def)
  from assms obtain u v where uv: "u \<in> set wvs" "v \<in> set wvs" "u \<noteq> v" "\<bar>u - v\<bar> < epsilon"
    by (auto simp: separated_def not_le)
  from uv(2) s obtain j where j: "j < length ?us" "?us ! j = v"
    by (metis in_set_conv_nth)
  have "u \<in> set (filter (\<lambda>w. \<bar>w - ?us ! j\<bar> < epsilon) ?us)"
    using uv s j by simp
  moreover have "v \<in> set (filter (\<lambda>w. \<bar>w - ?us ! j\<bar> < epsilon) ?us)"
    using uv s j by (simp add: epsilon_def)
  ultimately have "2 \<le> length (filter (\<lambda>w. \<bar>w - ?us ! j\<bar> < epsilon) ?us)"
    using uv(3) by (rule two_elements)
  with j(1) show ?thesis by blast
qed

text \<open>
  Claim C2, where it fails. The claim promises, after a successful fit, a dense light curve with
  one entry for every observation and every unique filter. For every fitted process and every
  light curve with at least one observation in which two different filter wavelengths are closer
  than \<open>epsilon\<close>, \<open>interpolate\<close> raises \<^verbatim>\<open>ValueError\<close> and returns no dense light curve: line 446
  selects the predictions of both filters for one column.
\<close>

theorem close_filters_raise:
  assumes "lc_phases lc \<noteq> []" and "\<not> separated (lc_wv lc)"
  shows "interpolate g lc = Inl ValueError"
proof -
  let ?us = "np_unique (lc_wv lc)" and ?ts = "lc_phases lc"
  have n: "1 \<le> length ?ts" using assms(1) by (simp add: Suc_le_eq)
  from crowded_index [OF assms(2)]
  have crowd: "\<exists>j \<in> set [0..<length ?us]. 2 \<le> length (filter (\<lambda>w. \<bar>w - ?us ! j\<bar> < epsilon) ?us)"
    by auto
  have "populate (map (\<lambda>(t, w). predict_mean g t w) (x_pred_of ?ts ?us))
             (map (\<lambda>(t, w). predict_var g t w) (x_pred_of ?ts ?us)) (x_pred_of ?ts ?us) ?us
             [0..<length ?us]
             (replicate (length ?ts) (replicate (length ?us) 0),
              replicate (length ?ts) (replicate (length ?us) (Some 0)))
        = Inl ValueError"
    by (rule populate_crowded [OF n _ _ _ crowd]) simp_all
  then show ?thesis
    unfolding interpolate_def Let_def by simp
qed

theorem close_filters_raise_witness:
  "lc_phases lc_close \<noteq> [] \<and> \<not> separated (lc_wv lc_close)
   \<and> interpolate gp_example lc_close = Inl ValueError"
proof -
  have a: "lc_phases lc_close \<noteq> []" by (simp add: lc_close_def)
  have b: "\<not> separated (lc_wv lc_close)"
    by (simp add: separated_def lc_close_def epsilon_def)
  from a b close_filters_raise [OF a b, of gp_example] show ?thesis by simp
qed

subsection \<open>The output table\<close>

text \<open>\<^verbatim>\<open>np.unique\<close> sorts the filter names as strings.\<close>

lemma uniq_names: "np_unique [''r'', ''i''] = [''i'', ''r'']"
  by (simp add: np_unique_def less_eq_char_def less_char_def)

lemma flatten_row_length: "length (flatten_row row) = 2 * length row"
  by (induction row) (auto simp: flatten_row_def)

lemma flatten_row_nth:
  "k < length row \<Longrightarrow>
     flatten_row row ! (2 * k) = Some (fst (row ! k)) \<and> flatten_row row ! (2 * k + 1) = snd (row ! k)"
proof (induction row arbitrary: k)
  case Nil
  then show ?case by simp
next
  case (Cons a row)
  have step: "flatten_row (a # row) = Some (fst a) # snd a # flatten_row row"
    by (simp add: flatten_row_def case_prod_beta)
  show ?case
  proof (cases k)
    case 0
    then show ?thesis by (simp add: step)
  next
    case (Suc m)
    with Cons.prems have "m < length row" by simp
    from Cons.IH [OF this] Suc show ?thesis by (simp add: step)
  qed
qed

text \<open>What \<open>write_output\<close> returns when it returns, and when it does.\<close>

lemma write_output_Inr:
  assumes "write_output lc dense_lc bb bol_lum bol_err my_filters = Inr tab"
  shows "dense_lc \<noteq> []"
    and "length (lc_phases lc) = length dense_lc"
    and "names tab = table_header_of my_filters"
    and "table_rows tab = map (table_row_of lc dense_lc bb bol_lum bol_err) [0..<length dense_lc]"
proof -
  from assms show ne: "dense_lc \<noteq> []" and len: "length (lc_phases lc) = length dense_lc"
    unfolding write_output_def Let_def by (auto split: if_splits)
  have rows: "map2 (\<lambda>d b. map (\<lambda>v. cell_of (nan_neg v)) d @ b)
                (map2 (\<lambda>t row. Some (- t) # row) (lc_phases lc) (map flatten_row dense_lc))
                (map (bb_cells bb bol_lum bol_err) [0..<length dense_lc])
              = map (table_row_of lc dense_lc bb bol_lum bol_err) [0..<length dense_lc]"
    using len by (intro nth_equalityI) (simp_all add: table_row_of_def)
  from assms show "names tab = table_header_of my_filters"
    unfolding write_output_def Let_def by (auto split: if_splits)
  from assms have "table_rows tab = map2 (\<lambda>d b. map (\<lambda>v. cell_of (nan_neg v)) d @ b)
                (map2 (\<lambda>t row. Some (- t) # row) (lc_phases lc) (map flatten_row dense_lc))
                (map (bb_cells bb bol_lum bol_err) [0..<length dense_lc])"
    unfolding write_output_def Let_def by (auto split: if_splits)
  with rows show "table_rows tab = map (table_row_of lc dense_lc bb bol_lum bol_err) [0..<length dense_lc]"
    by simp
qed

lemma table_row_time: "table_row_of lc dense_lc bb bol_lum bol_err i ! 0 = Num (lc_phases lc ! i)"
  by (simp add: table_row_of_def cell_of_def nan_neg_def)

lemma table_row_flux:
  assumes "k < length (dense_lc ! i)"
  shows "table_row_of lc dense_lc bb bol_lum bol_err i ! (1 + 2 * k) = Num (- fst (dense_lc ! i ! k))"
    and "table_row_of lc dense_lc bb bol_lum bol_err i ! (2 + 2 * k)
           = cell_of (nan_neg (snd (dense_lc ! i ! k)))"
proof -
  have l: "2 * k + 1 < length (flatten_row (dense_lc ! i))"
    using assms by (simp add: flatten_row_length)
  then have l0: "2 * k < length (flatten_row (dense_lc ! i))" by simp
  show "table_row_of lc dense_lc bb bol_lum bol_err i ! (1 + 2 * k) = Num (- fst (dense_lc ! i ! k))"
    using l0 flatten_row_nth [OF assms]
    by (simp add: table_row_of_def nth_append cell_of_def nan_neg_def)
  have "2 + 2 * k = Suc (2 * k + 1)" by simp
  then show "table_row_of lc dense_lc bb bol_lum bol_err i ! (2 + 2 * k)
           = cell_of (nan_neg (snd (dense_lc ! i ! k)))"
    using l flatten_row_nth [OF assms]
    by (simp add: table_row_of_def nth_append)
qed

lemma main_table_Inr:
  assumes "main_table g curve_fit lc = Inr tab"
  obtains dense_lc bb where
    "interpolate g lc = Inr dense_lc"
    "fit_bb curve_fit (map (map (\<lambda>(f, e). (f + out_flux_corr lc, e))) dense_lc)
        (map (\<lambda>w. w * 1000.0 + out_wv_corr lc) (np_unique (lc_wv lc))) = Inr bb"
    "write_output lc (map (map (\<lambda>(f, e). (f + out_flux_corr lc, e))) dense_lc) bb
        (bol_lum_arr bb) (bol_err_arr bb) (out_my_filters lc) = Inr tab"
  using assms unfolding main_table_def Let_def
  by (auto split: sum.splits)

text \<open>
  Claim C9. In the written table, line \<open>i\<close> starts with the time of observation \<open>i\<close>, with its
  original sign; the flux entry of filter \<open>k\<close> is the negation of the dense value (the predictive
  mean plus the flux correction) and the uncertainty entry is the negation of the dense
  uncertainty, so it is not positive when the standard deviation is not negative.
\<close>

theorem table_negates_dense_values:
  assumes "main_table g curve_fit lc = Inr tab"
  shows "\<exists>dense_lc. interpolate g lc = Inr dense_lc
          \<and> length (table_rows tab) = length dense_lc
          \<and> (\<forall>i < length dense_lc.
                table_rows tab ! i ! 0 = Num (lc_phases lc ! i)
              \<and> (\<forall>k < length (dense_lc ! i).
                    table_rows tab ! i ! (1 + 2 * k) = Num (- (fst (dense_lc ! i ! k) + out_flux_corr lc))
                  \<and> table_rows tab ! i ! (2 + 2 * k) = cell_of (nan_neg (snd (dense_lc ! i ! k)))
                  \<and> (\<forall>s. snd (dense_lc ! i ! k) = Some s \<and> 0 \<le> s \<longrightarrow>
                         table_rows tab ! i ! (2 + 2 * k) = Num (- s) \<and> - s \<le> 0)))"
proof -
  from assms obtain dense_lc bb where
    d: "interpolate g lc = Inr dense_lc"
    and w: "write_output lc (map (map (\<lambda>(f, e). (f + out_flux_corr lc, e))) dense_lc) bb
        (bol_lum_arr bb) (bol_err_arr bb) (out_my_filters lc) = Inr tab"
    by (rule main_table_Inr)
  let ?D = "map (map (\<lambda>(f, e). (f + out_flux_corr lc, e))) dense_lc"
  note rows = write_output_Inr(4) [OF w]
  have len: "length (table_rows tab) = length dense_lc" by (simp add: rows)
  have ent: "table_rows tab ! i ! 0 = Num (lc_phases lc ! i)
       \<and> (\<forall>k < length (dense_lc ! i).
                    table_rows tab ! i ! (1 + 2 * k) = Num (- (fst (dense_lc ! i ! k) + out_flux_corr lc))
                  \<and> table_rows tab ! i ! (2 + 2 * k) = cell_of (nan_neg (snd (dense_lc ! i ! k)))
                  \<and> (\<forall>s. snd (dense_lc ! i ! k) = Some s \<and> 0 \<le> s \<longrightarrow>
                         table_rows tab ! i ! (2 + 2 * k) = Num (- s) \<and> - s \<le> 0))"
    if i: "i < length dense_lc" for i
  proof -
    have r: "table_rows tab ! i = table_row_of lc ?D bb (bol_lum_arr bb) (bol_err_arr bb) i"
      using i by (simp add: rows)
    have Di: "?D ! i = map (\<lambda>(f, e). (f + out_flux_corr lc, e)) (dense_lc ! i)"
      using i by simp
    have t0: "table_rows tab ! i ! 0 = Num (lc_phases lc ! i)"
      unfolding r by (rule table_row_time)
    have "table_rows tab ! i ! (1 + 2 * k) = Num (- (fst (dense_lc ! i ! k) + out_flux_corr lc))
                  \<and> table_rows tab ! i ! (2 + 2 * k) = cell_of (nan_neg (snd (dense_lc ! i ! k)))
                  \<and> (\<forall>s. snd (dense_lc ! i ! k) = Some s \<and> 0 \<le> s \<longrightarrow>
                         table_rows tab ! i ! (2 + 2 * k) = Num (- s) \<and> - s \<le> 0)"
      if k: "k < length (dense_lc ! i)" for k
    proof -
      from k have k': "k < length (?D ! i)" by (simp add: Di)
      have v: "?D ! i ! k = (fst (dense_lc ! i ! k) + out_flux_corr lc, snd (dense_lc ! i ! k))"
        using k by (simp add: Di case_prod_beta)
      from table_row_flux [OF k', of lc bb "bol_lum_arr bb" "bol_err_arr bb"] v
      show ?thesis unfolding r by (auto simp: cell_of_def nan_neg_def)
    qed
    with t0 show ?thesis by blast
  qed
  from d len ent show ?thesis by blast
qed

lemma table_header_length: "length (table_header_of my_filters) = 7 + 2 * length (np_unique my_filters)"
proof -
  have "\<And>us :: string list. length (concat (map (\<lambda>filt. [filt, filt @ ''_err'']) us)) = 2 * length us"
    by (induct_tac us) simp_all
  then show ?thesis by (simp add: table_header_of_def Let_def)
qed

lemma table_row_length:
  "length (table_row_of lc dense_lc bb bol_lum bol_err i) = 7 + 2 * length (dense_lc ! i)"
  by (simp add: table_row_of_def flatten_row_length bb_cells_def)

lemma write_output_ok:
  assumes "dense_lc \<noteq> []" and "length (lc_phases lc) = length dense_lc"
    and "length (T_arr bb) = length dense_lc" and "length (Terr_arr bb) = length dense_lc"
    and "length (R_arr bb) = length dense_lc" and "length (Rerr_arr bb) = length dense_lc"
    and "length bol_lum = length dense_lc" and "length bol_err = length dense_lc"
    and "length (np_unique my_filters) = length (dense_lc ! 0)"
  shows "write_output lc dense_lc bb bol_lum bol_err my_filters
           = Inr \<lparr> names = table_header_of my_filters,
                   table_rows = map (table_row_of lc dense_lc bb bol_lum bol_err) [0..<length dense_lc] \<rparr>"
proof -
  have rows: "map2 (\<lambda>d b. map (\<lambda>v. cell_of (nan_neg v)) d @ b)
                (map2 (\<lambda>t row. Some (- t) # row) (lc_phases lc) (map flatten_row dense_lc))
                (map (bb_cells bb bol_lum bol_err) [0..<length dense_lc])
              = map (table_row_of lc dense_lc bb bol_lum bol_err) [0..<length dense_lc]"
    using assms(2) by (intro nth_equalityI) (simp_all add: table_row_of_def)
  have pos: "0 < length dense_lc" using assms(1) by simp
  have h: "hd (map (table_row_of lc dense_lc bb bol_lum bol_err) [0..<length dense_lc])
             = table_row_of lc dense_lc bb bol_lum bol_err 0"
    using pos by (simp add: hd_map)
  have hl: "length (table_header_of my_filters)
             = length (hd (map (table_row_of lc dense_lc bb bol_lum bol_err) [0..<length dense_lc]))"
    unfolding h by (simp add: table_header_length table_row_length assms(9))
  show ?thesis
    unfolding write_output_def Let_def rows
    using assms(1-8) hl by simp
qed

text \<open>
  On separated wavelengths, at least one observation, and as many filter names as wavelengths,
  \<open>main_table\<close> writes one line per observation under the header built from the sorted names.
\<close>

lemma main_table_ok:
  assumes sep: "separated (lc_wv lc)" and ne: "lc_phases lc \<noteq> []"
    and nf: "length (np_unique (out_my_filters lc)) = length (np_unique (lc_wv lc))"
  shows "\<exists>bb. main_table g curve_fit lc
           = Inr \<lparr> names = table_header_of (out_my_filters lc),
                   table_rows = map (table_row_of lc (dense_shifted g lc) bb (bol_lum_arr bb) (bol_err_arr bb))
                                  [0..<length (lc_phases lc)] \<rparr>"
proof -
  let ?wvs = "map (\<lambda>w. w * 1000.0 + out_wv_corr lc) (np_unique (lc_wv lc))"
  let ?D = "dense_shifted g lc"
  have shift: "map (map (\<lambda>(f, e). (f + out_flux_corr lc, e)))
                 (map (\<lambda>t. map (\<lambda>u. (predict_mean g t u, np_sqrt (predict_var g t u)))
                        (np_unique (lc_wv lc))) (lc_phases lc)) = ?D"
    by (simp add: dense_shifted_def comp_def)
  have same: "\<forall>d \<in> set ?D. length d = length ?wvs" by (auto simp: dense_shifted_def)
  obtain bb where
    bb: "fit_bb curve_fit ?D ?wvs = Inr bb"
    and l: "length (T_arr bb) = length ?D" "length (R_arr bb) = length ?D"
      "length (Terr_arr bb) = length ?D" "length (Rerr_arr bb) = length ?D"
    unfolding fit_bb_same_length [OF same] by simp
  have lD: "length ?D = length (lc_phases lc)" by (simp add: dense_shifted_def)
  have D0: "length (?D ! 0) = length (np_unique (lc_wv lc))" using ne by (simp add: dense_shifted_def)
  have w: "write_output lc ?D bb (bol_lum_arr bb) (bol_err_arr bb) (out_my_filters lc)
           = Inr \<lparr> names = table_header_of (out_my_filters lc),
                   table_rows = map (table_row_of lc ?D bb (bol_lum_arr bb) (bol_err_arr bb)) [0..<length ?D] \<rparr>"
    using ne l lD by (intro write_output_ok) (auto simp: bol_lum_arr_def bol_err_arr_def nf D0)
  have "main_table g curve_fit lc
          = write_output lc ?D bb (bol_lum_arr bb) (bol_err_arr bb) (out_my_filters lc)"
    unfolding main_table_def interpolate_separated [OF sep] Let_def sum.case shift bb by simp
  with w lD show ?thesis by auto
qed

text \<open>The example light curve is the output of the Normalizer on the example file.\<close>

lemma normalizer_example:
  "read_in_photometry svo_example rows_example 0 0 0 200 4 = Inr lc_example"
proof -
  from ex_ok0 obtain res where r: "read_in_photometry svo_example rows_example 0 0 0 200 4 = Inr res" ..
  have fc: "Min (set (map (\<lambda>r. row_flux 0 0 r (meta_of svo_example r)) rows_example)) - 1 = - 3.5"
    unfolding ex_fluxes by simp
  have "res = lc_example"
    unfolding rip_char(3) [OF r] ex_W0 ex_anchor ex_wc0 fc
    by (simp add: rows_example_def lc_example_def row_flux_AB meta_of_def svo_example_def)
  with r show ?thesis by simp
qed

lemma sep_example: "separated (lc_wv lc_example)"
  by (simp add: separated_def lc_example_def epsilon_def)

lemma main_table_example:
  "\<exists>bb. main_table g curve_fit lc_example
           = Inr \<lparr> names = table_header_of (out_my_filters lc_example),
                   table_rows = map (table_row_of lc_example (dense_shifted g lc_example) bb
                                       (bol_lum_arr bb) (bol_err_arr bb))
                                  [0..<length (lc_phases lc_example)] \<rparr>"
proof -
  have ne: "lc_phases lc_example \<noteq> []" by (simp add: lc_example_def)
  have nf: "length (np_unique (out_my_filters lc_example)) = length (np_unique (lc_wv lc_example))"
    by (simp add: lc_example_def uniq_names uniq_example)
  from main_table_ok [OF sep_example ne nf, of g curve_fit] show ?thesis .
qed

lemma dense_shifted_example:
  "dense_shifted g lc_example
     = [[(predict_mean g 0 0 + - 3.5, np_sqrt (predict_var g 0 0)),
         (predict_mean g 0 2 + - 3.5, np_sqrt (predict_var g 0 2))],
        [(predict_mean g 2 0 + - 3.5, np_sqrt (predict_var g 2 0)),
         (predict_mean g 2 2 + - 3.5, np_sqrt (predict_var g 2 2))]]"
  unfolding dense_shifted_def by (simp add: lc_example_def uniq_example)

lemma example_fields:
  "lc_phases lc_example = [0, 2]" "lc_wv lc_example = [0, 2]"
  "out_my_filters lc_example = [''r'', ''i'']" "out_flux_corr lc_example = - 3.5"
  by (simp_all add: lc_example_def)

text \<open>
  Claim C8, evaluated on the example file. The dense columns are in the order of the wavelengths
  (filter r at normalized wavelength 0, then filter i at 2), and \<^verbatim>\<open>main\<close> computes the names in
  that order for the plots (\<open>ufilts_of\<close>). The header of the table is built from the sorted
  names instead: the pair of columns named i holds the predictions at the wavelength of r, and
  the pair named r those at the wavelength of i.
\<close>

theorem table_labels_follow_names_not_wavelengths:
  "\<exists>lc tab. read_in_photometry svo_example rows_example 0 0 0 200 4 = Inr lc
      \<and> main_table g curve_fit lc = Inr tab
      \<and> lc_wv lc = [0, 2] \<and> out_my_filters lc = [''r'', ''i''] \<and> ufilts_of lc = [''r'', ''i'']
      \<and> take 5 (names tab) = [''Time (MJD)'', ''i'', ''i_err'', ''r'', ''r_err'']
      \<and> length (table_rows tab) = 2
      \<and> table_rows tab ! 0 ! 1 = Num (- (predict_mean g 0 0 + out_flux_corr lc))
      \<and> table_rows tab ! 0 ! 3 = Num (- (predict_mean g 0 2 + out_flux_corr lc))"
proof -
  from main_table_example [of g curve_fit] obtain bb where
    t0: "main_table g curve_fit lc_example
           = Inr \<lparr> names = table_header_of (out_my_filters lc_example),
                   table_rows = map (table_row_of lc_example (dense_shifted g lc_example) bb
                                       (bol_lum_arr bb) (bol_err_arr bb))
                                  [0..<length (lc_phases lc_example)] \<rparr>" ..
  define tab where "tab = \<lparr> names = table_header_of (out_my_filters lc_example),
                   table_rows = map (table_row_of lc_example (dense_shifted g lc_example) bb
                                       (bol_lum_arr bb) (bol_err_arr bb))
                                  [0..<length (lc_phases lc_example)] \<rparr>"
  have t: "main_table g curve_fit lc_example = Inr tab" using t0 by (simp add: tab_def)
  have u: "ufilts_of lc_example = [''r'', ''i'']"
    unfolding ufilts_of_def Let_def example_fields uniq_example by (simp add: take_idx_def)
  have n: "take 5 (names tab) = [''Time (MJD)'', ''i'', ''i_err'', ''r'', ''r_err'']"
    unfolding tab_def example_fields by (simp add: table_header_of_def uniq_names)
  have l: "length (table_rows tab) = 2"
    unfolding tab_def example_fields by simp
  have r0: "table_rows tab ! 0
              = table_row_of lc_example (dense_shifted g lc_example) bb (bol_lum_arr bb) (bol_err_arr bb) 0"
    unfolding tab_def example_fields by simp
  have d0: "dense_shifted g lc_example ! 0
             = [(predict_mean g 0 0 + - 3.5, np_sqrt (predict_var g 0 0)),
                (predict_mean g 0 2 + - 3.5, np_sqrt (predict_var g 0 2))]"
    unfolding dense_shifted_example by simp
  have k: "0 < length (dense_shifted g lc_example ! 0)" "1 < length (dense_shifted g lc_example ! 0)"
    unfolding d0 by simp_all
  have e1: "table_rows tab ! 0 ! 1 = Num (- (predict_mean g 0 0 + out_flux_corr lc_example))"
    unfolding r0 example_fields
    using table_row_flux(1) [OF k(1), of lc_example bb "bol_lum_arr bb" "bol_err_arr bb"]
    unfolding d0 by simp
  have e3: "table_rows tab ! 0 ! 3 = Num (- (predict_mean g 0 2 + out_flux_corr lc_example))"
    unfolding r0 example_fields
    using table_row_flux(1) [OF k(2), of lc_example bb "bol_lum_arr bb" "bol_err_arr bb"]
    unfolding d0 by (simp add: numeral_3_eq_3)
  show ?thesis
    apply (rule exI [of _ lc_example])
    apply (rule exI [of _ tab])
    apply (intro conjI)
            apply (rule normalizer_example)
           apply (rule t)
          apply (rule example_fields(2))
         apply (rule example_fields(3))
        apply (rule u)
       apply (rule n)
      apply (rule l)
     apply (rule e1)
    apply (rule e3)
    done
qed

theorem table_negates_dense_values_witness:
  "\<exists>tab. main_table gp_example nan_averse_fit lc_example = Inr tab
      \<and> table_rows tab ! 0 ! 0 = Num 0 \<and> table_rows tab ! 1 ! 0 = Num 2
      \<and> table_rows tab ! 0 ! 1 = Num 3.5 \<and> table_rows tab ! 0 ! 2 = Num (- 1)"
proof -
  from main_table_example [of gp_example nan_averse_fit] obtain tab where
    t: "main_table gp_example nan_averse_fit lc_example = Inr tab" by blast
  define dense where "dense = [[(0, Some 1), (2, Some 1)], [(2, Some 1), (4::real, Some (1::real))]]"
  have i: "interpolate gp_example lc_example = Inr dense"
    unfolding interpolate_separated [OF sep_example] example_fields uniq_example dense_def
    by (simp add: gp_example_def np_sqrt_def)
  from table_negates_dense_values [OF t] obtain d where
    di: "interpolate gp_example lc_example = Inr d"
    and ed: "\<forall>i < length d. table_rows tab ! i ! 0 = Num (lc_phases lc_example ! i)
              \<and> (\<forall>k < length (d ! i).
                    table_rows tab ! i ! (1 + 2 * k)
                      = Num (- (fst (d ! i ! k) + out_flux_corr lc_example))
                  \<and> table_rows tab ! i ! (2 + 2 * k) = cell_of (nan_neg (snd (d ! i ! k)))
                  \<and> (\<forall>s. snd (d ! i ! k) = Some s \<and> 0 \<le> s \<longrightarrow>
                         table_rows tab ! i ! (2 + 2 * k) = Num (- s) \<and> - s \<le> 0))"
    by blast
  from di i have dd: "d = dense" by simp
  have e: "\<forall>i < length dense. table_rows tab ! i ! 0 = Num (lc_phases lc_example ! i)
              \<and> (\<forall>k < length (dense ! i).
                    table_rows tab ! i ! (1 + 2 * k)
                      = Num (- (fst (dense ! i ! k) + out_flux_corr lc_example))
                  \<and> table_rows tab ! i ! (2 + 2 * k) = cell_of (nan_neg (snd (dense ! i ! k)))
                  \<and> (\<forall>s. snd (dense ! i ! k) = Some s \<and> 0 \<le> s \<longrightarrow>
                         table_rows tab ! i ! (2 + 2 * k) = Num (- s) \<and> - s \<le> 0))"
    using ed unfolding dd .
  have l: "0 < length dense" "1 < length dense" "0 < length (dense ! 0)"
    by (simp_all add: dense_def)
  from e l(1) have a0: "table_rows tab ! 0 ! 0 = Num (lc_phases lc_example ! 0)" by blast
  from e l(2) have a1: "table_rows tab ! 1 ! 0 = Num (lc_phases lc_example ! 1)" by blast
  from e l(1) l(3) have b: "table_rows tab ! 0 ! (1 + 2 * 0)
                      = Num (- (fst (dense ! 0 ! 0) + out_flux_corr lc_example))
                  \<and> table_rows tab ! 0 ! (2 + 2 * 0) = cell_of (nan_neg (snd (dense ! 0 ! 0)))"
    by blast
  have c0: "table_rows tab ! 0 ! 0 = Num 0" using a0 unfolding example_fields by simp
  have c1: "table_rows tab ! 1 ! 0 = Num 2" using a1 unfolding example_fields by simp
  have c2: "table_rows tab ! 0 ! 1 = Num 3.5"
    using b unfolding example_fields dense_def by simp
  have c3: "table_rows tab ! 0 ! 2 = Num (- 1)"
    using b unfolding example_fields dense_def by (simp add: cell_of_def nan_neg_def)
  from t c0 c1 c2 c3 show ?thesis by blast
qed

subsection \<open>The chi-square of the Template Fitter\<close>

lemma tf_where:
  "where_filter tf_filts 5000 4000 = [0, 1, 2]"
  "where_filter tf_filts 5000 6000 = [3, 4, 5]"
  by (simp_all add: where_filter_def tf_filts_def)

lemma tf_data:
  "take_idx tf_flux (where_filter tf_filts 5000 4000) = [0, 0, 0]"
  "take_idx tf_flux (where_filter tf_filts 5000 6000) = [3, 3, 3]"
  "take_idx tf_time (where_filter tf_filts 5000 4000) = [0, 1, 2]"
  "take_idx tf_time (where_filter tf_filts 5000 6000) = [0, 1, 2]"
  "take_idx tf_errs (where_filter tf_filts 5000 4000) = [1, 1, 1]"
  "take_idx tf_errs (where_filter tf_filts 5000 6000) = [2, 2, 2]"
  unfolding tf_where by (simp_all add: take_idx_def tf_flux_def tf_time_def tf_errs_def)

lemma tf_model: "model flat_template [0, 1, 2] filt A 0 1 = [filt / 1000 + A, filt / 1000 + A, filt / 1000 + A]"
  by (simp add: model_def flat_template_def)

lemma tf_chi: "chi_square [d, d, d] [m, m, m] [e, e, e] = 3 * ((m - d) / e) ^ 2"
  by (simp add: chi_square_def)

lemma tf_fit:
  "offset_fit (\<lambda>t A t_c t_s. model flat_template t w A t_c t_s) [0, 1, 2] [d, d, d] p0
     = Inr (d - w / 1000, 0, 1)"
  by (simp add: offset_fit_def tf_model)

lemma tf_candidates:
  "candidates offset_fit flat_template tf_wv tf_filts 5000 tf_flux tf_time tf_errs 0 tf_wv
     = Inr [((- 4, 0, 1), 12), ((- 3, 0, 1), 3)]"
proof -
  have "candidates offset_fit flat_template tf_wv tf_filts 5000 tf_flux tf_time tf_errs 0 [4000, 6000]
     = Inr [((- 4, 0, 1), 12), ((- 3, 0, 1), 3)]"
    by (simp add: tf_data tf_fit Let_def param_chi_def tf_wv_def tf_model tf_chi)
  then show ?thesis by (simp add: tf_wv_def)
qed

text \<open>
  Claim C1, evaluated on the example. The chi-square that the loop stores for a candidate
  compares the model at every filter wavelength with the observations of the candidate filter
  only: 12 for the first candidate and 3 for the second, so the second (offset -3) is returned.
  Against every filter's own observations the first candidate (offset -4) has the smaller
  aggregate chi-square, 3/4 against 3.
\<close>

theorem template_chi_uses_candidate_data_only:
  "fit_template offset_fit tf_wv flat_template tf_filts 5000 tf_flux tf_time tf_errs 0 True True
     = Inr (ParamsChi (- 3) 0 1 3)
   \<and> candidates offset_fit flat_template tf_wv tf_filts 5000 tf_flux tf_time tf_errs 0 tf_wv
     = Inr [((- 4, 0, 1), 12), ((- 3, 0, 1), 3)]
   \<and> aggregate_chi_spec flat_template tf_wv tf_filts 5000 tf_flux tf_time tf_errs (- 4, 0, 1) = 3 / 4
   \<and> aggregate_chi_spec flat_template tf_wv tf_filts 5000 tf_flux tf_time tf_errs (- 3, 0, 1) = 3"
proof -
  have 1: "fit_template offset_fit tf_wv flat_template tf_filts 5000 tf_flux tf_time tf_errs 0 True True
     = Inr (ParamsChi (- 3) 0 1 3)"
    by (simp add: fit_template_def tf_candidates np_argmin_def)
  have 2: "aggregate_chi_spec flat_template tf_wv tf_filts 5000 tf_flux tf_time tf_errs (- 4, 0, 1) = 3 / 4"
    by (simp add: aggregate_chi_spec_def tf_wv_def tf_data tf_model tf_chi Let_def power2_eq_square)
  have 3: "aggregate_chi_spec flat_template tf_wv tf_filts 5000 tf_flux tf_time tf_errs (- 3, 0, 1) = 3"
    by (simp add: aggregate_chi_spec_def tf_wv_def tf_data tf_model tf_chi Let_def power2_eq_square)
  from 1 tf_candidates 2 3 show ?thesis by simp
qed

end
